theory Spec2Isabelle
  imports Main "HOL-Library.Word"
begin

unbundle bit_operations_syntax

section \<open>Python values used by demoizer.py\<close>

text \<open>
  The program is one Python module, \<^verbatim>\<open>demoizer.py\<close>. Its strings are modelled as
  \<^typ>\<open>string\<close>, one \<^typ>\<open>char\<close> per code point; the model therefore covers text whose
  code points are below 256. Paths follow \<^verbatim>\<open>posixpath\<close>, URL handling follows
  \<^verbatim>\<open>urllib.parse\<close> of CPython 3.11, the digest is MD5 (RFC 1321).
\<close>

subsection \<open>Exceptions\<close>

text \<open>
  Every exception of the model is a subclass of Python's \<^verbatim>\<open>Exception\<close>. The string is the
  message that \<^verbatim>\<open>str(e)\<close> gives. \<open>HTTPError\<close>, \<open>Timeout\<close> and \<open>ConnectionError\<close> are
  what the HTTP transport raises for an error status, a timeout and a transport failure.
\<close>

datatype exn =
    FileNotFoundError string
  | ValueError string
  | HTTPError string
  | Timeout string
  | ConnectionError string

fun exn_str :: "exn \<Rightarrow> string" where
  "exn_str (FileNotFoundError m) = m"
| "exn_str (ValueError m) = m"
| "exn_str (HTTPError m) = m"
| "exn_str (Timeout m) = m"
| "exn_str (ConnectionError m) = m"

fun is_FileNotFoundError :: "exn \<Rightarrow> bool" where
  "is_FileNotFoundError (FileNotFoundError m) = True"
| "is_FileNotFoundError e = False"

subsection \<open>String methods\<close>

definition startswith :: "string \<Rightarrow> string \<Rightarrow> bool" where
  "startswith s p = (take (length p) s = p)"

text \<open>\<^verbatim>\<open>s.startswith((p1, ..., pn))\<close> with a tuple of prefixes.\<close>

definition startswith_any :: "string \<Rightarrow> string list \<Rightarrow> bool" where
  "startswith_any s ps = list_ex (startswith s) ps"

definition endswith :: "string \<Rightarrow> string \<Rightarrow> bool" where
  "endswith s p = (length p \<le> length s \<and> drop (length s - length p) s = p)"

text \<open>\<^verbatim>\<open>sub in s\<close> for strings.\<close>

primrec contains :: "string \<Rightarrow> string \<Rightarrow> bool" where
  "contains [] sub = (sub = [])"
| "contains (c # cs) sub = (startswith (c # cs) sub \<or> contains cs sub)"

text \<open>\<^verbatim>\<open>s.split(c)\<close> for a one-character separator, and \<^verbatim>\<open>c.join(parts)\<close>.\<close>

primrec split_on :: "char \<Rightarrow> string \<Rightarrow> string list" where
  "split_on c [] = [[]]"
| "split_on c (x # xs) =
     (if x = c then [] # split_on c xs
      else (case split_on c xs of [] \<Rightarrow> [[x]] | y # ys \<Rightarrow> (x # y) # ys))"

fun join_with :: "char \<Rightarrow> string list \<Rightarrow> string" where
  "join_with c [] = []"
| "join_with c [p] = p"
| "join_with c (p # q # ps) = p @ [c] @ join_with c (q # ps)"

text \<open>
  \<^verbatim>\<open>s.replace(old, new)\<close>: every non-overlapping occurrence, from the left. The counter
  says how many characters of an occurrence already replaced are still to be passed over.
\<close>

primrec replace_from :: "string \<Rightarrow> string \<Rightarrow> nat \<Rightarrow> string \<Rightarrow> string" where
  "replace_from old new k [] = []"
| "replace_from old new k (c # cs) =
     (case k of
        Suc j \<Rightarrow> replace_from old new j cs
      | 0 \<Rightarrow> if startswith (c # cs) old then new @ replace_from old new (length old - 1) cs
             else c # replace_from old new 0 cs)"

definition replace :: "string \<Rightarrow> string \<Rightarrow> string \<Rightarrow> string" where
  "replace s old new =
     (if old = [] then new @ concat (map (\<lambda>c. c # new) s) else replace_from old new 0 s)"

definition code :: "char \<Rightarrow> nat" where
  "code c = of_char c"

definition isspace :: "char \<Rightarrow> bool" where
  "isspace c = (let n = code c in (9 \<le> n \<and> n \<le> 13) \<or> (28 \<le> n \<and> n \<le> 32) \<or> n = 133 \<or> n = 160)"

definition isalnum :: "char \<Rightarrow> bool" where
  "isalnum c =
     (let n = code c in
        (48 \<le> n \<and> n \<le> 57) \<or> (65 \<le> n \<and> n \<le> 90) \<or> (97 \<le> n \<and> n \<le> 122) \<or> n = 170
        \<or> n = 178 \<or> n = 179 \<or> n = 181 \<or> n = 185 \<or> n = 186 \<or> (188 \<le> n \<and> n \<le> 190)
        \<or> (192 \<le> n \<and> n \<le> 214) \<or> (216 \<le> n \<and> n \<le> 246) \<or> 248 \<le> n)"

definition lower_char :: "char \<Rightarrow> char" where
  "lower_char c =
     (let n = code c in
        if (65 \<le> n \<and> n \<le> 90) \<or> (192 \<le> n \<and> n \<le> 214) \<or> (216 \<le> n \<and> n \<le> 222)
        then char_of (n + 32) else c)"

definition lower :: "string \<Rightarrow> string" where
  "lower s = map lower_char s"

definition rstrip :: "string \<Rightarrow> string" where
  "rstrip s = rev (dropWhile isspace (rev s))"

text \<open>\<^verbatim>\<open>s.encode()\<close>: UTF-8. A code point from 128 to 255 takes two bytes.\<close>

definition encode_char :: "char \<Rightarrow> 8 word list" where
  "encode_char c =
     (let n = code c in
        if n < 128 then [of_nat n] else [of_nat (192 + n div 64), of_nat (128 + n mod 64)])"

definition encode :: "string \<Rightarrow> 8 word list" where
  "encode s = concat (map encode_char s)"

subsection \<open>posixpath\<close>

definition os_path_basename :: "string \<Rightarrow> string" where
  "os_path_basename p = rev (takeWhile (\<lambda>c. c \<noteq> CHR ''/'') (rev p))"

definition os_path_dirname :: "string \<Rightarrow> string" where
  "os_path_dirname p =
     (let head = rev (dropWhile (\<lambda>c. c \<noteq> CHR ''/'') (rev p))
      in if head \<noteq> [] \<and> head \<noteq> replicate (length head) CHR ''/''
         then rev (dropWhile (\<lambda>c. c = CHR ''/'') (rev head)) else head)"

text \<open>
  \<^verbatim>\<open>os.path.splitext\<close>: the extension starts at the last dot of the final component, unless
  only dots come before it there.
\<close>

definition os_path_splitext :: "string \<Rightarrow> string \<times> string" where
  "os_path_splitext p =
     (let base = os_path_basename p;
          ext = rev (takeWhile (\<lambda>c. c \<noteq> CHR ''.'') (rev base)) in
      if CHR ''.'' \<in> set base
         \<and> list_ex (\<lambda>c. c \<noteq> CHR ''.'') (take (length base - length ext - 1) base)
      then (take (length p - length ext - 1) p, CHR ''.'' # ext)
      else (p, []))"

definition os_path_join :: "string \<Rightarrow> string \<Rightarrow> string" where
  "os_path_join a b =
     (if startswith b ''/'' then b
      else if a = [] \<or> endswith a ''/'' then a @ b
      else a @ ''/'' @ b)"

fun normpath_comps :: "bool \<Rightarrow> string list \<Rightarrow> string list \<Rightarrow> string list" where
  "normpath_comps initial_slashes new_comps [] = new_comps"
| "normpath_comps initial_slashes new_comps (seg # comps) =
     (if seg = [] \<or> seg = ''.'' then normpath_comps initial_slashes new_comps comps
      else if seg \<noteq> ''..'' \<or> (\<not> initial_slashes \<and> new_comps = [])
              \<or> (new_comps \<noteq> [] \<and> last new_comps = ''..'')
      then normpath_comps initial_slashes (new_comps @ [seg]) comps
      else if new_comps \<noteq> [] then normpath_comps initial_slashes (butlast new_comps) comps
      else normpath_comps initial_slashes new_comps comps)"

definition os_path_normpath :: "string \<Rightarrow> string" where
  "os_path_normpath path =
     (if path = [] then ''.''
      else
        let initial_slashes =
              (if startswith path ''/'' then
                 (if startswith path ''//'' \<and> \<not> startswith path ''///'' then 2 else 1)
               else (0::nat));
            comps = normpath_comps (initial_slashes \<noteq> 0) [] (split_on CHR ''/'' path);
            joined = replicate initial_slashes CHR ''/'' @ join_with CHR ''/'' comps
        in if joined = [] then ''.'' else joined)"

text \<open>\<^verbatim>\<open>os.path.abspath\<close>, with the working directory \<^verbatim>\<open>os.getcwd()\<close> as a parameter.\<close>

definition os_path_abspath :: "string \<Rightarrow> string \<Rightarrow> string" where
  "os_path_abspath cwd path =
     os_path_normpath (if startswith path ''/'' then path else os_path_join cwd path)"

fun commonprefix_len :: "string list \<Rightarrow> string list \<Rightarrow> nat" where
  "commonprefix_len (x # xs) (y # ys) = (if x = y then Suc (commonprefix_len xs ys) else 0)"
| "commonprefix_len xs ys = 0"

definition os_path_relpath :: "string \<Rightarrow> string \<Rightarrow> string \<Rightarrow> exn + string" where
  "os_path_relpath cwd path start =
     (if path = [] then Inl (ValueError ''no path specified'')
      else
        let start_list = filter (\<lambda>x. x \<noteq> []) (split_on CHR ''/'' (os_path_abspath cwd start));
            path_list = filter (\<lambda>x. x \<noteq> []) (split_on CHR ''/'' (os_path_abspath cwd path));
            i = commonprefix_len start_list path_list;
            rel_list = replicate (length start_list - i) ''..'' @ drop i path_list
        in if rel_list = [] then Inr ''.''
           else Inr (foldl os_path_join (hd rel_list) (tl rel_list)))"

subsection \<open>hashlib.md5\<close>

type_synonym u32 = "32 word"

definition md5_s :: "nat list" where
  "md5_s = [7, 12, 17, 22, 7, 12, 17, 22, 7, 12, 17, 22, 7, 12, 17, 22,
            5, 9, 14, 20, 5, 9, 14, 20, 5, 9, 14, 20, 5, 9, 14, 20,
            4, 11, 16, 23, 4, 11, 16, 23, 4, 11, 16, 23, 4, 11, 16, 23,
            6, 10, 15, 21, 6, 10, 15, 21, 6, 10, 15, 21, 6, 10, 15, 21]"

definition md5_K :: "u32 list" where
  "md5_K = [0xd76aa478, 0xe8c7b756, 0x242070db, 0xc1bdceee,
            0xf57c0faf, 0x4787c62a, 0xa8304613, 0xfd469501,
            0x698098d8, 0x8b44f7af, 0xffff5bb1, 0x895cd7be,
            0x6b901122, 0xfd987193, 0xa679438e, 0x49b40821,
            0xf61e2562, 0xc040b340, 0x265e5a51, 0xe9b6c7aa,
            0xd62f105d, 0x02441453, 0xd8a1e681, 0xe7d3fbc8,
            0x21e1cde6, 0xc33707d6, 0xf4d50d87, 0x455a14ed,
            0xa9e3e905, 0xfcefa3f8, 0x676f02d9, 0x8d2a4c8a,
            0xfffa3942, 0x8771f681, 0x6d9d6122, 0xfde5380c,
            0xa4beea44, 0x4bdecfa9, 0xf6bb4b60, 0xbebfbc70,
            0x289b7ec6, 0xeaa127fa, 0xd4ef3085, 0x04881d05,
            0xd9d4d039, 0xe6db99e5, 0x1fa27cf8, 0xc4ac5665,
            0xf4292244, 0x432aff97, 0xab9423a7, 0xfc93a039,
            0x655b59c3, 0x8f0ccc92, 0xffeff47d, 0x85845dd1,
            0x6fa87e4f, 0xfe2ce6e0, 0xa3014314, 0x4e0811a1,
            0xf7537e82, 0xbd3af235, 0x2ad7d2bb, 0xeb86d391]"

definition md5_f :: "nat \<Rightarrow> u32 \<Rightarrow> u32 \<Rightarrow> u32 \<Rightarrow> u32" where
  "md5_f i b c d =
     (if i < 16 then (b AND c) OR (NOT b AND d)
      else if i < 32 then (d AND b) OR (NOT d AND c)
      else if i < 48 then b XOR c XOR d
      else c XOR (b OR NOT d))"

definition md5_g :: "nat \<Rightarrow> nat" where
  "md5_g i =
     (if i < 16 then i
      else if i < 32 then (5 * i + 1) mod 16
      else if i < 48 then (3 * i + 5) mod 16
      else (7 * i) mod 16)"

definition rotate_left :: "nat \<Rightarrow> u32 \<Rightarrow> u32" where
  "rotate_left n x = push_bit n x OR drop_bit (32 - n) x"

definition md5_round :: "u32 list \<Rightarrow> u32 \<times> u32 \<times> u32 \<times> u32 \<Rightarrow> nat \<Rightarrow> u32 \<times> u32 \<times> u32 \<times> u32" where
  "md5_round m st i =
     (case st of (a, b, c, d) \<Rightarrow>
        (d, b + rotate_left (md5_s ! i) (md5_f i b c d + a + md5_K ! i + m ! md5_g i), b, c))"

text \<open>A 32-bit word from four bytes, least significant first.\<close>

fun le_word :: "8 word list \<Rightarrow> u32" where
  "le_word (b0 # b1 # b2 # b3 # bs) =
     ucast b0 OR push_bit 8 (ucast b1) OR push_bit 16 (ucast b2) OR push_bit 24 (ucast b3)"
| "le_word bs = 0"

fun chunk_words :: "nat \<Rightarrow> 8 word list \<Rightarrow> u32 list" where
  "chunk_words 0 bs = []"
| "chunk_words (Suc n) bs = le_word bs # chunk_words n (drop 4 bs)"

definition md5_chunk :: "u32 \<times> u32 \<times> u32 \<times> u32 \<Rightarrow> 8 word list \<Rightarrow> u32 \<times> u32 \<times> u32 \<times> u32" where
  "md5_chunk h bs =
     (case h of (a0, b0, c0, d0) \<Rightarrow>
        case foldl (md5_round (chunk_words 16 bs)) h [0..<64] of (a, b, c, d) \<Rightarrow>
          (a0 + a, b0 + b, c0 + c, d0 + d))"

fun md5_chunks :: "nat \<Rightarrow> u32 \<times> u32 \<times> u32 \<times> u32 \<Rightarrow> 8 word list \<Rightarrow> u32 \<times> u32 \<times> u32 \<times> u32" where
  "md5_chunks 0 h bs = h"
| "md5_chunks (Suc n) h bs = md5_chunks n (md5_chunk h (take 64 bs)) (drop 64 bs)"

text \<open>
  Padding: the byte 0x80, zero bytes up to 56 modulo 64, and the length of the message in
  bits as a 64-bit number, least significant byte first.
\<close>

definition md5_pad :: "8 word list \<Rightarrow> 8 word list" where
  "md5_pad bs =
     bs @ [0x80] @ replicate ((119 - length bs mod 64) mod 64) 0
        @ map (\<lambda>i. ucast (drop_bit (8 * i) (of_nat (8 * length bs) :: 64 word))) [0..<8]"

definition u32_bytes :: "u32 \<Rightarrow> 8 word list" where
  "u32_bytes w = [ucast w, ucast (drop_bit 8 w), ucast (drop_bit 16 w), ucast (drop_bit 24 w)]"

definition md5 :: "8 word list \<Rightarrow> 8 word list" where
  "md5 bs =
     (let p = md5_pad bs in
      case md5_chunks (length p div 64) (0x67452301, 0xefcdab89, 0x98badcfe, 0x10325476) p
      of (a, b, c, d) \<Rightarrow> u32_bytes a @ u32_bytes b @ u32_bytes c @ u32_bytes d)"

definition hex_digit :: "nat \<Rightarrow> char" where
  "hex_digit n = ''0123456789abcdef'' ! (n mod 16)"

definition hexdigest :: "8 word list \<Rightarrow> string" where
  "hexdigest bs = concat (map (\<lambda>b. [hex_digit (unat b div 16), hex_digit (unat b)]) bs)"

subsection \<open>urllib.parse\<close>

definition scheme_chars :: string where
  "scheme_chars = ''abcdefghijklmnopqrstuvwxyzABCDEFGHIJKLMNOPQRSTUVWXYZ0123456789+-.''"

definition uses_relative :: "string list" where
  "uses_relative = ['''', ''ftp'', ''http'', ''gopher'', ''nntp'', ''imap'',
                    ''wais'', ''file'', ''https'', ''shttp'', ''mms'',
                    ''prospero'', ''rtsp'', ''rtsps'', ''rtspu'', ''sftp'',
                    ''svn'', ''svn+ssh'', ''ws'', ''wss'']"

definition uses_netloc :: "string list" where
  "uses_netloc = ['''', ''ftp'', ''http'', ''gopher'', ''nntp'', ''telnet'',
                  ''imap'', ''wais'', ''file'', ''mms'', ''https'', ''shttp'',
                  ''snews'', ''prospero'', ''rtsp'', ''rtsps'', ''rtspu'', ''rsync'',
                  ''svn'', ''svn+ssh'', ''sftp'', ''nfs'', ''git'', ''git+ssh'',
                  ''ws'', ''wss'']"

definition uses_params :: "string list" where
  "uses_params = ['''', ''ftp'', ''hdl'', ''prospero'', ''http'', ''imap'',
                  ''https'', ''shttp'', ''rtsp'', ''rtsps'', ''rtspu'', ''sip'',
                  ''sips'', ''mms'', ''sftp'', ''tel'']"

definition c0_control_or_space :: "char \<Rightarrow> bool" where
  "c0_control_or_space c = (code c \<le> 32)"

definition unsafe_url_byte :: "char \<Rightarrow> bool" where
  "unsafe_url_byte c = (code c = 9 \<or> code c = 13 \<or> code c = 10)"

definition isascii_alpha :: "char \<Rightarrow> bool" where
  "isascii_alpha c = (let n = code c in (65 \<le> n \<and> n \<le> 90) \<or> (97 \<le> n \<and> n \<le> 122))"

text \<open>\<^verbatim>\<open>s.split(c, 1)\<close> when \<open>c\<close> occurs in \<open>s\<close>: the text before and after its first occurrence.\<close>

definition split_first :: "char \<Rightarrow> string \<Rightarrow> string \<times> string" where
  "split_first c s = (takeWhile (\<lambda>x. x \<noteq> c) s, drop 1 (dropWhile (\<lambda>x. x \<noteq> c) s))"

text \<open>\<^verbatim>\<open>_splitnetloc(url, 2)\<close>: the network location ends at the first of \<open>/\<close>, \<open>?\<close>, \<open>#\<close>.\<close>

definition splitnetloc :: "string \<Rightarrow> string \<times> string" where
  "splitnetloc url =
     (takeWhile (\<lambda>c. c \<notin> set ''/?#'') (drop 2 url), dropWhile (\<lambda>c. c \<notin> set ''/?#'') (drop 2 url))"

text \<open>
  \<^verbatim>\<open>urlsplit(url, scheme)\<close>. A bracketed host is validated by \<^verbatim>\<open>_check_bracketed_host\<close>
  with the \<^verbatim>\<open>ipaddress\<close> module; that validation is the parameter \<open>check_bracketed_host\<close>,
  which gives the message of the \<^verbatim>\<open>ValueError\<close> for a host it refuses.
  \<^verbatim>\<open>_checknetloc\<close> raises only when NFKC normalisation of the network location produces
  one of the characters \<^verbatim>\<open>/?#@:\<close>, which no code point below 256 does.
\<close>

definition urlsplit ::
  "(string \<Rightarrow> string option) \<Rightarrow> string \<Rightarrow> string
     \<Rightarrow> exn + (string \<times> string \<times> string \<times> string \<times> string)" where
  "urlsplit check_bracketed_host url0 scheme0 =
     (let url1 = filter (\<lambda>c. \<not> unsafe_url_byte c) (dropWhile c0_control_or_space url0);
          scheme1 = filter (\<lambda>c. \<not> unsafe_url_byte c)
                      (rev (dropWhile c0_control_or_space
                         (rev (dropWhile c0_control_or_space scheme0))));
          pre = takeWhile (\<lambda>c. c \<noteq> CHR '':'') url1;
          has_scheme = (CHR '':'' \<in> set url1 \<and> pre \<noteq> [] \<and> isascii_alpha (hd pre)
                          \<and> list_all (\<lambda>c. c \<in> set scheme_chars) pre);
          scheme2 = (if has_scheme then lower pre else scheme1);
          url2 = (if has_scheme then drop (length pre + 1) url1 else url1);
          netloc = (if take 2 url2 = ''//'' then fst (splitnetloc url2) else []);
          url3 = (if take 2 url2 = ''//'' then snd (splitnetloc url2) else url2);
          frag = (if CHR ''#'' \<in> set url3 then snd (split_first CHR ''#'' url3) else []);
          url4 = (if CHR ''#'' \<in> set url3 then fst (split_first CHR ''#'' url3) else url3);
          qry = (if CHR ''?'' \<in> set url4 then snd (split_first CHR ''?'' url4) else []);
          url5 = (if CHR ''?'' \<in> set url4 then fst (split_first CHR ''?'' url4) else url4);
          bracketed_host =
            takeWhile (\<lambda>c. c \<noteq> CHR '']'') (drop 1 (dropWhile (\<lambda>c. c \<noteq> CHR ''['') netloc))
      in if (CHR ''['' \<in> set netloc \<and> CHR '']'' \<notin> set netloc)
            \<or> (CHR '']'' \<in> set netloc \<and> CHR ''['' \<notin> set netloc)
         then Inl (ValueError ''Invalid IPv6 URL'')
         else if CHR ''['' \<in> set netloc \<and> CHR '']'' \<in> set netloc then
           (case check_bracketed_host bracketed_host of
              Some msg \<Rightarrow> Inl (ValueError msg)
            | None \<Rightarrow> Inr (scheme2, netloc, url5, qry, frag))
         else Inr (scheme2, netloc, url5, qry, frag))"

record parse_result =
  url_scheme :: string
  url_netloc :: string
  url_path :: string
  url_params :: string
  url_query :: string
  url_fragment :: string

text \<open>\<^verbatim>\<open>_splitparams\<close>: the parameters follow the first \<open>;\<close> of the last path segment.\<close>

definition splitparams :: "string \<Rightarrow> string \<times> string" where
  "splitparams url =
     (let seg = os_path_basename url in
      if CHR '';'' \<in> set seg
      then (take (length url - length seg) url @ takeWhile (\<lambda>c. c \<noteq> CHR '';'') seg,
            drop 1 (dropWhile (\<lambda>c. c \<noteq> CHR '';'') seg))
      else (url, []))"

definition urlparse :: "(string \<Rightarrow> string option) \<Rightarrow> string \<Rightarrow> string \<Rightarrow> exn + parse_result" where
  "urlparse check_bracketed_host url scheme0 =
     (case urlsplit check_bracketed_host url scheme0 of
        Inl e \<Rightarrow> Inl e
      | Inr (sch, netloc, rest, qry, frag) \<Rightarrow>
          let sp = (if sch \<in> set uses_params \<and> CHR '';'' \<in> set rest then splitparams rest
                    else (rest, []))
          in Inr \<lparr>url_scheme = sch, url_netloc = netloc, url_path = fst sp,
                  url_params = snd sp, url_query = qry, url_fragment = frag\<rparr>)"

definition urlunsplit :: "string \<Rightarrow> string \<Rightarrow> string \<Rightarrow> string \<Rightarrow> string \<Rightarrow> string" where
  "urlunsplit sch netloc url qry frag =
     (let url1 = (if netloc \<noteq> [] \<or> (sch \<noteq> [] \<and> sch \<in> set uses_netloc) \<or> take 2 url = ''//''
                  then ''//'' @ netloc @ (if url \<noteq> [] \<and> take 1 url \<noteq> ''/'' then ''/'' @ url else url)
                  else url);
          url2 = (if sch \<noteq> [] then sch @ '':'' @ url1 else url1);
          url3 = (if qry \<noteq> [] then url2 @ ''?'' @ qry else url2)
      in if frag \<noteq> [] then url3 @ ''#'' @ frag else url3)"

definition urlunparse :: "parse_result \<Rightarrow> string" where
  "urlunparse r =
     urlunsplit (url_scheme r) (url_netloc r)
       (if url_params r \<noteq> [] then url_path r @ '';'' @ url_params r else url_path r)
       (url_query r) (url_fragment r)"

text \<open>\<^verbatim>\<open>segments[1:-1] = filter(None, segments[1:-1])\<close>: empty inner segments are dropped.\<close>

fun filter_inner :: "string list \<Rightarrow> string list" where
  "filter_inner (a # b # rest) = a # filter (\<lambda>x. x \<noteq> []) (butlast (b # rest)) @ [last (b # rest)]"
| "filter_inner segs = segs"

fun resolve_segments :: "string list \<Rightarrow> string list \<Rightarrow> string list" where
  "resolve_segments resolved_path [] = resolved_path"
| "resolve_segments resolved_path (seg # segs) =
     (if seg = ''..'' then resolve_segments (butlast resolved_path) segs
      else if seg = ''.'' then resolve_segments resolved_path segs
      else resolve_segments (resolved_path @ [seg]) segs)"

definition urljoin :: "(string \<Rightarrow> string option) \<Rightarrow> string \<Rightarrow> string \<Rightarrow> exn + string" where
  "urljoin check_bracketed_host base url =
     (if base = [] then Inr url
      else if url = [] then Inr base
      else
        case urlparse check_bracketed_host base [] of
          Inl e \<Rightarrow> Inl e
        | Inr b \<Rightarrow>
        case urlparse check_bracketed_host url (url_scheme b) of
          Inl e \<Rightarrow> Inl e
        | Inr u \<Rightarrow>
          if url_scheme u \<noteq> url_scheme b \<or> url_scheme u \<notin> set uses_relative then Inr url
          else if url_scheme u \<in> set uses_netloc \<and> url_netloc u \<noteq> [] then Inr (urlunparse u)
          else
            let netloc = (if url_scheme u \<in> set uses_netloc then url_netloc b else url_netloc u) in
            if url_path u = [] \<and> url_params u = [] then
              Inr (urlunparse (u\<lparr>url_netloc := netloc, url_path := url_path b,
                     url_params := url_params b,
                     url_query := (if url_query u = [] then url_query b else url_query u)\<rparr>))
            else
              let base_parts0 = split_on CHR ''/'' (url_path b);
                  base_parts = (if last base_parts0 \<noteq> [] then butlast base_parts0 else base_parts0);
                  segments = (if take 1 (url_path u) = ''/'' then split_on CHR ''/'' (url_path u)
                              else filter_inner (base_parts @ split_on CHR ''/'' (url_path u)));
                  resolved_path = resolve_segments [] segments
                                    @ (if last segments = ''.'' \<or> last segments = ''..'' then [[]] else []);
                  joined = join_with CHR ''/'' resolved_path
              in Inr (urlunparse (u\<lparr>url_netloc := netloc,
                        url_path := (if joined = [] then ''/'' else joined)\<rparr>)))"

section \<open>The filename synthesizer\<close>

text \<open>\<^verbatim>\<open>any(keyword in url.lower() for keyword in keywords)\<close>.\<close>

definition any_keyword :: "string \<Rightarrow> string list \<Rightarrow> bool" where
  "any_keyword url keywords = list_ex (\<lambda>keyword. contains (lower url) keyword) keywords"

text \<open>\<^verbatim>\<open>hashlib.md5(url.encode()).hexdigest()[:8]\<close>.\<close>

definition url_hash :: "string \<Rightarrow> string" where
  "url_hash url = take 8 (hexdigest (md5 (encode url)))"

text \<open>
  The file name of \<^verbatim>\<open>create_local_filename\<close> before the hash is spliced in: lines 97 to 135
  of the source.
\<close>

definition local_basename :: "parse_result \<Rightarrow> string \<Rightarrow> string" where
  "local_basename parsed url =
     (let path = url_path parsed;
          filename1 =
            (if path = [] \<or> path = ''/''
             then map (\<lambda>c. if c = CHR ''.'' then CHR ''_'' else c) (url_netloc parsed) @ ''.html''
             else if os_path_basename path = []
             then os_path_basename (os_path_dirname path) @ ''.html''
             else os_path_basename path);
          filename2 =
            (if contains path ''xjs'' \<and> contains path ''_/ss/'' then ''google_bundle_styles.css''
             else if contains path ''xjs'' \<and> contains path ''_/js/'' then ''google_bundle_scripts.js''
             else if contains path ''/images/'' then
               (if CHR ''.'' \<notin> set filename1 then filename1 @ ''.png'' else filename1)
             else filename1);
          filename3 =
            (if CHR ''.'' \<notin> set filename2 then
               (if any_keyword url [''css'', ''style'', ''/ss/''] then filename2 @ ''.css''
                else if any_keyword url [''js'', ''script'', ''/js/''] then filename2 @ ''.js''
                else if any_keyword url [''font'', ''woff'', ''ttf''] then filename2 @ ''.woff2''
                else if any_keyword url [''png'', ''jpg'', ''jpeg'', ''gif'', ''svg'', ''webp'']
                then filename2 @ ''.png''
                else filename2 @ ''.html'')
             else filename2)
      in rstrip (filter (\<lambda>c. isalnum c \<or> c \<in> set ''.-_'') filename3))"

definition create_local_filename ::
  "(string \<Rightarrow> string option) \<Rightarrow> string \<Rightarrow> string \<Rightarrow> exn + string" where
  "create_local_filename check_bracketed_host url resources_dir =
     (case urlparse check_bracketed_host url [] of
        Inl e \<Rightarrow> Inl e
      | Inr parsed \<Rightarrow>
          let filename = local_basename parsed url;
              name_ext = os_path_splitext filename;
              safe_filename = fst name_ext @ ''_'' @ url_hash url @ snd name_ext
          in Inr (os_path_join resources_dir safe_filename))"

section \<open>Dictionaries\<close>

text \<open>
  A Python \<^verbatim>\<open>dict\<close> keeps its keys in insertion order, and the program iterates over
  \<^verbatim>\<open>downloaded_resources.items()\<close>: a dictionary is a list of pairs with distinct keys.
  \<open>dict_set\<close> is \<^verbatim>\<open>d[k] = v\<close>, \<open>dict_del\<close> is \<^verbatim>\<open>del d[k]\<close>, \<^const>\<open>map_of\<close> looks a key up.
\<close>

fun dict_set :: "'k \<Rightarrow> 'v \<Rightarrow> ('k \<times> 'v) list \<Rightarrow> ('k \<times> 'v) list" where
  "dict_set k v [] = [(k, v)]"
| "dict_set k v ((k', v') # kvs) =
     (if k' = k then (k, v) # kvs else (k', v') # dict_set k v kvs)"

definition dict_del :: "'k \<Rightarrow> ('k \<times> 'v) list \<Rightarrow> ('k \<times> 'v) list" where
  "dict_del k kvs = filter (\<lambda>kv. fst kv \<noteq> k) kvs"

definition has_key :: "('k \<times> 'v) list \<Rightarrow> 'k \<Rightarrow> bool" where
  "has_key kvs k = (map_of kvs k \<noteq> None)"

section \<open>The parsed document\<close>

text \<open>
  \<^verbatim>\<open>BeautifulSoup(html, "html.parser")\<close> gives a tree of tags and strings. A tag has a name,
  a dictionary of attributes and a list of children; the parser gives names in lower case
  and gives a \<^verbatim>\<open>script\<close> or \<^verbatim>\<open>style\<close> element only strings as children. The document is
  the list of the top-level nodes.
\<close>

datatype node =
    Tag string "(string \<times> string) list" "node list"
  | NavigableString string

text \<open>
  \<^verbatim>\<open>tag.string\<close>: the string of a tag whose only child is a string, or whose only child is a
  tag that has a string; \<^verbatim>\<open>None\<close> otherwise.
\<close>

fun node_string :: "node \<Rightarrow> string option" where
  "node_string (NavigableString s) = Some s"
| "node_string (Tag name attrs [child]) = node_string child"
| "node_string (Tag name attrs children) = None"

text \<open>
  The selectors of \<^verbatim>\<open>soup.select\<close> that the program uses: a tag name, and possibly one
  attribute with the value it must have.
\<close>

datatype selector = Sel string "(string \<times> string) option"

text \<open>The maximal runs of characters that are not white space.\<close>

primrec tokens_from :: "string \<Rightarrow> string \<Rightarrow> string list" where
  "tokens_from tok [] = (if tok = [] then [] else [tok])"
| "tokens_from tok (c # cs) =
     (if isspace c then (if tok = [] then tokens_from [] cs else tok # tokens_from [] cs)
      else tokens_from (tok @ [c]) cs)"

fun join_words :: "string list \<Rightarrow> string" where
  "join_words [] = []"
| "join_words [t] = t"
| "join_words (t # u # ts) = t @ '' '' @ join_words (u # ts)"

text \<open>
  An attribute selector \<^verbatim>\<open>[a="v"]\<close> compares the whole value. The parser keeps \<^verbatim>\<open>rel\<close> as
  the list of its tokens, which the selector engine joins with single spaces; any other
  value is matched by the pattern \<^verbatim>\<open>^v$\<close>, which also accepts one final line feed.
\<close>

definition attr_value_matches :: "string \<Rightarrow> string \<Rightarrow> string \<Rightarrow> bool" where
  "attr_value_matches a val v =
     (if a = ''rel'' then join_words (tokens_from [] val) = v
      else val = v \<or> val = v @ [CHR 0x0A])"

fun selects :: "selector \<Rightarrow> string \<Rightarrow> (string \<times> string) list \<Rightarrow> bool" where
  "selects (Sel t None) name attrs = (name = t)"
| "selects (Sel t (Some (a, v))) name attrs =
     (name = t \<and> (case map_of attrs a of None \<Rightarrow> False | Some val \<Rightarrow> attr_value_matches a val v))"

definition resource_selectors :: "(selector \<times> string) list" where
  "resource_selectors =
     [(Sel ''img'' None, ''src''),
      (Sel ''image'' None, ''src''),
      (Sel ''meta'' (Some (''itemprop'', ''image'')), ''content''),
      (Sel ''meta'' (Some (''property'', ''og:image'')), ''content''),
      (Sel ''meta'' (Some (''name'', ''twitter:image'')), ''content''),
      (Sel ''link'' None, ''href''),
      (Sel ''script'' None, ''src''),
      (Sel ''link'' (Some (''rel'', ''icon'')), ''href''),
      (Sel ''link'' (Some (''rel'', ''shortcut icon'')), ''href'')]"

section \<open>Extraction of CSS references\<close>

text \<open>
  \<^verbatim>\<open>re.findall(r'url\(["\']?([^"\')\s]+)["\']?\)', css_content)\<close>. The group is a maximal
  run of characters other than quotes, the closing parenthesis and white space: a shorter
  run is followed by a character of the run, where neither the optional quote nor the
  parenthesis can match, so the greedy choice is the only one.
\<close>

definition is_quote :: "char \<Rightarrow> bool" where
  "is_quote c = (c = CHR 0x22 \<or> c = CHR 0x27)"

definition css_url_char :: "char \<Rightarrow> bool" where
  "css_url_char c = (\<not> is_quote c \<and> c \<noteq> CHR '')'' \<and> \<not> isspace c)"

text \<open>A match of the pattern at the start of the text: the group, and the length of the match.\<close>

definition match_css_url :: "string \<Rightarrow> (string \<times> nat) option" where
  "match_css_url s =
     (if startswith s ''url('' then
        let r1 = drop 4 s;
            q1 = (if r1 \<noteq> [] \<and> is_quote (hd r1) then 1 else 0);
            r2 = drop q1 r1;
            g = takeWhile css_url_char r2;
            r3 = dropWhile css_url_char r2;
            q2 = (if r3 \<noteq> [] \<and> is_quote (hd r3) then 1 else 0);
            r4 = drop q2 r3
        in if g \<noteq> [] \<and> startswith r4 '')'' then Some (g, 4 + q1 + length g + q2 + 1) else None
      else None)"

text \<open>The matches from the left, without overlap; the counter passes over a match found.\<close>

primrec findall_from :: "nat \<Rightarrow> string \<Rightarrow> string list" where
  "findall_from k [] = []"
| "findall_from k (c # cs) =
     (case k of
        Suc j \<Rightarrow> findall_from j cs
      | 0 \<Rightarrow> (case match_css_url (c # cs) of
                Some (g, n) \<Rightarrow> g # findall_from (n - 1) cs
              | None \<Rightarrow> findall_from 0 cs))"

definition find_css_urls :: "string \<Rightarrow> string list" where
  "find_css_urls css_content = findall_from 0 css_content"

section \<open>The environment and the state\<close>

text \<open>
  What the program gets from outside: the HTTP transport (\<^verbatim>\<open>session.get\<close> followed by
  \<^verbatim>\<open>raise_for_status\<close> and the reading of the body: an exception or the body), the working
  directory, the validation of bracketed hosts, and the parser and the serialiser of
  BeautifulSoup. The transport answers a URL the same way each time it is asked.
\<close>

record env =
  http_get :: "string \<Rightarrow> exn + string"
  getcwd :: string
  bracketed_host_check :: "string \<Rightarrow> string option"
  parse_html :: "string \<Rightarrow> node list"
  prettify :: "node list \<Rightarrow> string"

text \<open>
  What the program changes: the files (by absolute normalised path; a file holds text, and
  directories are not modelled, so that writing never fails), the lines printed, the URLs
  requested from the transport in order, and the dictionary \<^verbatim>\<open>downloaded_resources\<close> of the
  job being processed. \<^verbatim>\<open>time.sleep\<close> has no effect on this state.
\<close>

record state =
  files :: "string \<rightharpoonup> string"
  console :: "string list"
  requests :: "string list"
  downloaded_resources :: "(string \<times> string) list"

definition print :: "string \<Rightarrow> state \<Rightarrow> state" where
  "print line st = st\<lparr>console := console st @ [line]\<rparr>"

definition read_file :: "env \<Rightarrow> string \<Rightarrow> state \<Rightarrow> string option" where
  "read_file env path st = files st (os_path_abspath (getcwd env) path)"

definition write_file :: "env \<Rightarrow> string \<Rightarrow> string \<Rightarrow> state \<Rightarrow> state" where
  "write_file env path content st =
     st\<lparr>files := (files st)(os_path_abspath (getcwd env) path \<mapsto> content)\<rparr>"

definition no_such_file :: "string \<Rightarrow> exn" where
  "no_such_file path =
     FileNotFoundError (''[Errno 2] No such file or directory: '' @ [CHR 0x27] @ path @ [CHR 0x27])"

section \<open>The fetcher\<close>

text \<open>
  \<^verbatim>\<open>download_resource(url, local_path, session)\<close>, lines 144 to 176. Every exception of the
  transport is caught and makes the result \<^verbatim>\<open>False\<close>.
\<close>

definition download_resource :: "env \<Rightarrow> string \<Rightarrow> string \<Rightarrow> state \<Rightarrow> bool \<times> state" where
  "download_resource env url0 local_path st =
     (if \<not> startswith url0 ''//'' \<and> \<not> startswith_any url0 [''http://'', ''https://'']
      then (False, st)
      else
        let url = (if startswith url0 ''//'' then ''https:'' @ url0 else url0);
            st1 = print (''  Downloading: '' @ url) st;
            st2 = st1\<lparr>requests := requests st1 @ [url]\<rparr>
        in case http_get env url of
             Inl e \<Rightarrow> (False, print (''    Failed to download '' @ url @ '': '' @ exn_str e) st2)
           | Inr body \<Rightarrow>
               (True, print (''    Saved to: '' @ local_path) (write_file env local_path body st2)))"

text \<open>
  The statements that all four passes run for a URL that is not in the dictionary (lines 250
  to 259, 285 to 291, 323 to 329 and 359 to 365): synthesize the local path, download, and on
  success compute the relative path and record it. The result is the relative path, or
  \<^verbatim>\<open>None\<close> when the download failed. In the source the context is rewritten just before
  the dictionary is updated; nothing can fail in between, so the caller of \<open>localize\<close>
  rewrites the context after it.
\<close>

definition localize :: "env \<Rightarrow> string \<Rightarrow> string \<Rightarrow> state \<Rightarrow> (exn + string option) \<times> state" where
  "localize env output_file url st =
     (case create_local_filename (bracketed_host_check env) url ''resources'' of
        Inl e \<Rightarrow> (Inl e, st)
      | Inr local_path \<Rightarrow>
          (case download_resource env url local_path st of
             (False, st1) \<Rightarrow> (Inr None, st1)
           | (True, st1) \<Rightarrow>
               (case os_path_relpath (getcwd env) local_path (os_path_dirname output_file) of
                  Inl e \<Rightarrow> (Inl e, st1)
                | Inr p \<Rightarrow>
                    let relative_path = replace p [CHR 0x5C] ''/'' in
                    (Inr (Some relative_path),
                     st1\<lparr>downloaded_resources :=
                            dict_set url relative_path (downloaded_resources st1)\<rparr>))))"

section \<open>Loops over the document\<close>

text \<open>
  \<^verbatim>\<open>for element in soup.select(...)\<close> and \<^verbatim>\<open>for element in soup.find_all(...)\<close> visit the
  tags in document order and change them in place. The model walks the tree in that order
  with a visitor for a tag: given the name, the attributes and the children it returns
  the new attributes and, when it assigns \<^verbatim>\<open>tag.string\<close>, the new text, which then is the
  only child. An exception ends the walk and keeps the state reached.
\<close>

type_synonym visitor =
  "string \<Rightarrow> (string \<times> string) list \<Rightarrow> node list \<Rightarrow> state
     \<Rightarrow> (exn + (string \<times> string) list \<times> string option) \<times> state"

fun walk :: "visitor \<Rightarrow> node \<Rightarrow> state \<Rightarrow> (exn + node) \<times> state"
  and walk_list :: "visitor \<Rightarrow> node list \<Rightarrow> state \<Rightarrow> (exn + node list) \<times> state" where
  "walk f (NavigableString s) st = (Inr (NavigableString s), st)"
| "walk f (Tag name attrs children) st =
     (case f name attrs children st of
        (Inl e, st1) \<Rightarrow> (Inl e, st1)
      | (Inr (attrs1, Some text), st1) \<Rightarrow> (Inr (Tag name attrs1 [NavigableString text]), st1)
      | (Inr (attrs1, None), st1) \<Rightarrow>
          (case walk_list f children st1 of
             (Inl e, st2) \<Rightarrow> (Inl e, st2)
           | (Inr children1, st2) \<Rightarrow> (Inr (Tag name attrs1 children1), st2)))"
| "walk_list f [] st = (Inr [], st)"
| "walk_list f (n # ns) st =
     (case walk f n st of
        (Inl e, st1) \<Rightarrow> (Inl e, st1)
      | (Inr n1, st1) \<Rightarrow>
          (case walk_list f ns st1 of
             (Inl e, st2) \<Rightarrow> (Inl e, st2)
           | (Inr ns1, st2) \<Rightarrow> (Inr (n1 # ns1), st2)))"

text \<open>A loop whose body updates a value and the state, and may raise.\<close>

fun for_each ::
  "('a \<Rightarrow> 'b \<Rightarrow> state \<Rightarrow> (exn + 'b) \<times> state) \<Rightarrow> 'a list \<Rightarrow> 'b \<Rightarrow> state \<Rightarrow> (exn + 'b) \<times> state" where
  "for_each f [] acc st = (Inr acc, st)"
| "for_each f (x # xs) acc st =
     (case f x acc st of
        (Inl e, st1) \<Rightarrow> (Inl e, st1)
      | (Inr acc1, st1) \<Rightarrow> for_each f xs acc1 st1)"

section \<open>The rewrite passes\<close>

subsection \<open>Attribute pass\<close>

text \<open>Lines 233 to 238: the resolution of an attribute value against the base URL.\<close>

definition resolve_attr_url :: "env \<Rightarrow> string \<Rightarrow> string \<Rightarrow> exn + string" where
  "resolve_attr_url env base_url url =
     (if startswith url ''/'' then urljoin (bracketed_host_check env) base_url url
      else if \<not> startswith_any url [''http://'', ''https://'', ''//'']
      then urljoin (bracketed_host_check env) base_url url
      else Inr url)"

text \<open>Lines 225 to 262: the body of the loop over the selected elements.\<close>

definition localize_element ::
  "env \<Rightarrow> string \<Rightarrow> string \<Rightarrow> string \<Rightarrow> (string \<times> string) list \<Rightarrow> state
     \<Rightarrow> (exn + (string \<times> string) list) \<times> state" where
  "localize_element env base_url output_file attr attrs st =
     (case map_of attrs attr of
        None \<Rightarrow> (Inr attrs, st)
      | Some url0 \<Rightarrow>
          if startswith_any url0 [''data:'', ''javascript:'', ''mailto:'', ''tel:'', ''#'']
          then (Inr attrs, st)
          else
            (case resolve_attr_url env base_url url0 of
               Inl e \<Rightarrow> (Inl e, st)
             | Inr url \<Rightarrow>
                 if \<not> startswith_any url [''http://'', ''https://'', ''//''] then (Inr attrs, st)
                 else
                   (case map_of (downloaded_resources st) url of
                      Some p \<Rightarrow> (Inr (dict_set attr p attrs), st)
                    | None \<Rightarrow>
                        (case localize env output_file url st of
                           (Inl e, st1) \<Rightarrow> (Inl e, st1)
                         | (Inr None, st1) \<Rightarrow> (Inr attrs, st1)
                         | (Inr (Some p), st1) \<Rightarrow> (Inr (dict_set attr p attrs), st1)))))"

definition select_visitor :: "env \<Rightarrow> string \<Rightarrow> string \<Rightarrow> selector \<Rightarrow> string \<Rightarrow> visitor" where
  "select_visitor env base_url output_file sel attr name attrs children st =
     (if selects sel name attrs then
        (case localize_element env base_url output_file attr attrs st of
           (Inl e, st1) \<Rightarrow> (Inl e, st1)
         | (Inr attrs1, st1) \<Rightarrow> (Inr (attrs1, None), st1))
      else (Inr (attrs, None), st))"

text \<open>Lines 222 to 262: one walk of the document for each selector, in the order of the list.\<close>

definition attribute_pass ::
  "env \<Rightarrow> string \<Rightarrow> string \<Rightarrow> node list \<Rightarrow> state \<Rightarrow> (exn + node list) \<times> state" where
  "attribute_pass env base_url output_file soup st =
     for_each (\<lambda>(sel, attr) soup1 st1.
                 walk_list (select_visitor env base_url output_file sel attr) soup1 st1)
       resource_selectors soup st"

subsection \<open>References in CSS\<close>

text \<open>Lines 276 to 282, and again 314 to 320 and 347 to 353.\<close>

definition resolve_css_url :: "env \<Rightarrow> string \<Rightarrow> string \<Rightarrow> exn + string" where
  "resolve_css_url env base_url css_url =
     (if startswith css_url ''//'' then Inr (''https:'' @ css_url)
      else if startswith css_url ''/'' then urljoin (bracketed_host_check env) base_url css_url
      else if \<not> startswith_any css_url [''http://'', ''https://'']
      then urljoin (bracketed_host_check env) base_url css_url
      else Inr css_url)"

subsection \<open>External stylesheets\<close>

text \<open>Lines 275 to 292: the body of the loop over the references of one stylesheet.\<close>

definition external_css_url ::
  "env \<Rightarrow> string \<Rightarrow> string \<Rightarrow> string \<Rightarrow> string \<Rightarrow> state \<Rightarrow> (exn + string) \<times> state" where
  "external_css_url env base_url output_file css_url0 css_content st =
     (case resolve_css_url env base_url css_url0 of
        Inl e \<Rightarrow> (Inl e, st)
      | Inr css_url \<Rightarrow>
          if startswith_any css_url [''http://'', ''https://'']
             \<and> \<not> has_key (downloaded_resources st) css_url
          then
            (case localize env output_file css_url st of
               (Inl e, st1) \<Rightarrow> (Inl e, st1)
             | (Inr None, st1) \<Rightarrow> (Inr css_content, st1)
             | (Inr (Some relative_path), st1) \<Rightarrow>
                 (Inr (replace css_content css_url relative_path), st1))
          else (Inr css_content, st))"

text \<open>
  Lines 267 to 299: one stylesheet. Every exception is caught and reported, and the file is
  then not written back.
\<close>

definition css_file_error :: "string \<Rightarrow> exn \<Rightarrow> string" where
  "css_file_error css_file e = ''    Error processing CSS file '' @ css_file @ '': '' @ exn_str e"

definition external_css_file :: "env \<Rightarrow> string \<Rightarrow> string \<Rightarrow> string \<Rightarrow> state \<Rightarrow> state" where
  "external_css_file env base_url output_file css_file st =
     (case read_file env css_file st of
        None \<Rightarrow> print (css_file_error css_file (no_such_file css_file)) st
      | Some css_content \<Rightarrow>
          (case for_each (external_css_url env base_url output_file)
                  (find_css_urls css_content) css_content st of
             (Inl e, st1) \<Rightarrow> print (css_file_error css_file e) st1
           | (Inr css_content1, st1) \<Rightarrow> write_file env css_file css_content1 st1))"

text \<open>
  Line 266: the stylesheets are the values of the dictionary that end in \<^verbatim>\<open>.css\<close>, as the
  dictionary is when the pass starts.
\<close>

definition external_css_pass :: "env \<Rightarrow> string \<Rightarrow> string \<Rightarrow> state \<Rightarrow> state" where
  "external_css_pass env base_url output_file st =
     foldl (\<lambda>st1 css_file. external_css_file env base_url output_file css_file st1) st
       (filter (\<lambda>path. endswith path ''.css'') (map snd (downloaded_resources st)))"

subsection \<open>Inline style elements\<close>

text \<open>Lines 311 to 330: the body of the loop over the references of one style element.\<close>

definition inline_css_url ::
  "env \<Rightarrow> string \<Rightarrow> string \<Rightarrow> string \<Rightarrow> string \<Rightarrow> state \<Rightarrow> (exn + string) \<times> state" where
  "inline_css_url env base_url output_file original_css_url css_content st =
     (case resolve_css_url env base_url original_css_url of
        Inl e \<Rightarrow> (Inl e, st)
      | Inr css_url \<Rightarrow>
          if startswith_any css_url [''http://'', ''https://'']
             \<and> \<not> has_key (downloaded_resources st) css_url
          then
            (case localize env output_file css_url st of
               (Inl e, st1) \<Rightarrow> (Inl e, st1)
             | (Inr None, st1) \<Rightarrow> (Inr css_content, st1)
             | (Inr (Some relative_path), st1) \<Rightarrow>
                 (Inr (replace css_content original_css_url relative_path), st1))
          else (Inr css_content, st))"

text \<open>Lines 303 to 333: one style element.\<close>

definition style_tag_visitor :: "env \<Rightarrow> string \<Rightarrow> string \<Rightarrow> visitor" where
  "style_tag_visitor env base_url output_file name attrs children st =
     (if name = ''style'' then
        (case node_string (Tag name attrs children) of
           None \<Rightarrow> (Inr (attrs, None), st)
         | Some css_content \<Rightarrow>
             if css_content = [] then (Inr (attrs, None), st)
             else
               (case for_each (inline_css_url env base_url output_file)
                       (find_css_urls css_content) css_content st of
                  (Inl e, st1) \<Rightarrow> (Inl e, st1)
                | (Inr css_content1, st1) \<Rightarrow> (Inr (attrs, Some css_content1), st1)))
      else (Inr (attrs, None), st))"

subsection \<open>Inline style attributes\<close>

text \<open>Lines 344 to 366: the body of the loop over the references of one style attribute.\<close>

definition style_attr_url ::
  "env \<Rightarrow> string \<Rightarrow> string \<Rightarrow> string \<Rightarrow> string \<Rightarrow> state \<Rightarrow> (exn + string) \<times> state" where
  "style_attr_url env base_url output_file original_css_url style_content st =
     (case resolve_css_url env base_url original_css_url of
        Inl e \<Rightarrow> (Inl e, st)
      | Inr css_url \<Rightarrow>
          (case map_of (downloaded_resources st) css_url of
             Some p \<Rightarrow> (Inr (replace style_content original_css_url p), st)
           | None \<Rightarrow>
               if startswith_any css_url [''http://'', ''https://''] then
                 (case localize env output_file css_url st of
                    (Inl e, st1) \<Rightarrow> (Inl e, st1)
                  | (Inr None, st1) \<Rightarrow> (Inr style_content, st1)
                  | (Inr (Some relative_path), st1) \<Rightarrow>
                      (Inr (replace style_content original_css_url relative_path), st1))
               else (Inr style_content, st)))"

text \<open>Lines 337 to 369: one element that has a style attribute.\<close>

definition style_attr_visitor :: "env \<Rightarrow> string \<Rightarrow> string \<Rightarrow> visitor" where
  "style_attr_visitor env base_url output_file name attrs children st =
     (case map_of attrs ''style'' of
        None \<Rightarrow> (Inr (attrs, None), st)
      | Some style_content \<Rightarrow>
          if contains style_content ''url('' then
            (case for_each (style_attr_url env base_url output_file)
                    (find_css_urls style_content) style_content st of
               (Inl e, st1) \<Rightarrow> (Inl e, st1)
             | (Inr style_content1, st1) \<Rightarrow>
                 (Inr (dict_set ''style'' style_content1 attrs, None), st1))
          else (Inr (attrs, None), st))"

section \<open>The sanitizer\<close>

text \<open>Lines 372 and 373: every script element is removed from the tree.\<close>

fun is_script :: "node \<Rightarrow> bool" where
  "is_script (Tag name attrs children) = (name = ''script'')"
| "is_script (NavigableString s) = False"

fun remove_scripts :: "node \<Rightarrow> node" where
  "remove_scripts (NavigableString s) = NavigableString s"
| "remove_scripts (Tag name attrs children) =
     Tag name attrs (map remove_scripts (filter (\<lambda>n. \<not> is_script n) children))"

text \<open>Lines 376 to 380: the anchors that have an \<^verbatim>\<open>href\<close>.\<close>

fun replace_links :: "string \<Rightarrow> node \<Rightarrow> node" where
  "replace_links link_replacement (NavigableString s) = NavigableString s"
| "replace_links link_replacement (Tag name attrs children) =
     Tag name
       (if name = ''a'' \<and> has_key attrs ''href''
        then dict_del ''ping'' (dict_set ''href'' link_replacement attrs) else attrs)
       (map (replace_links link_replacement) children)"

definition sanitize :: "string \<Rightarrow> node list \<Rightarrow> node list" where
  "sanitize link_replacement soup =
     map (replace_links link_replacement)
       (map remove_scripts (filter (\<lambda>n. \<not> is_script n) soup))"

section \<open>One job and the run\<close>

text \<open>\<^verbatim>\<open>str(n)\<close> for a count.\<close>

fun str_nat :: "nat \<Rightarrow> string" where
  "str_nat n =
     (if n < 10 then [''0123456789'' ! n]
      else str_nat (n div 10) @ [''0123456789'' ! (n mod 10)])"

text \<open>
  Lines 220 to 369 of \<^verbatim>\<open>process_html_file\<close>: the four rewrite passes in their order, on the
  parsed document.
\<close>

definition rewrite_passes ::
  "env \<Rightarrow> string \<Rightarrow> string \<Rightarrow> node list \<Rightarrow> state \<Rightarrow> (exn + node list) \<times> state" where
  "rewrite_passes env base_url output_file soup st =
     (case attribute_pass env base_url output_file soup
             (print ''  Downloading external resources...'' st) of
        (Inl e, st1) \<Rightarrow> (Inl e, st1)
      | (Inr soup1, st1) \<Rightarrow>
          (case walk_list (style_tag_visitor env base_url output_file) soup1
                  (print ''  Processing inline CSS for embedded resources...''
                     (external_css_pass env base_url output_file
                        (print ''  Processing CSS files for embedded resources...'' st1))) of
             (Inl e, st2) \<Rightarrow> (Inl e, st2)
           | (Inr soup2, st2) \<Rightarrow>
               walk_list (style_attr_visitor env base_url output_file) soup2
                 (print ''  Processing inline style attributes for background images...'' st2)))"

text \<open>
  \<^verbatim>\<open>process_html_file(input_file, output_file, link_replacement, base_url)\<close>: the input is
  read and parsed, the dictionary starts empty, the passes run, the document is sanitized
  and written.
\<close>

definition process_html_file ::
  "env \<Rightarrow> string \<Rightarrow> string \<Rightarrow> string \<Rightarrow> string \<Rightarrow> state \<Rightarrow> (exn + unit) \<times> state" where
  "process_html_file env input_file output_file link_replacement base_url st =
     (let st1 = print (''  Base URL: '' @ base_url)
                  (print (''Processing '' @ input_file @ '' -> '' @ output_file) st) in
      case read_file env input_file st1 of
        None \<Rightarrow> (Inl (no_such_file input_file), st1)
      | Some html \<Rightarrow>
          (case rewrite_passes env base_url output_file (parse_html env html)
                  (st1\<lparr>downloaded_resources := []\<rparr>) of
             (Inl e, st2) \<Rightarrow> (Inl e, st2)
           | (Inr soup, st2) \<Rightarrow>
               (Inr (),
                print (''  Downloaded '' @ str_nat (length (downloaded_resources st2))
                         @ '' resources'')
                  (print (''Completed processing '' @ input_file)
                     (write_file env output_file
                        (prettify env (sanitize link_replacement soup)) st2)))))"

text \<open>A job descriptor: the four keys that the loop reads from \<^verbatim>\<open>file_config\<close>.\<close>

record job =
  cfg_input_filename :: string
  cfg_output_filename :: string
  cfg_link_replacement :: string
  cfg_base_url :: string

text \<open>Lines 392 to 402: the body of the loop over the jobs, with its two handlers.\<close>

definition process_job :: "env \<Rightarrow> job \<Rightarrow> state \<Rightarrow> state" where
  "process_job env file_config st =
     (case process_html_file env (cfg_input_filename file_config) (cfg_output_filename file_config)
             (cfg_link_replacement file_config) (cfg_base_url file_config) st of
        (Inr u, st1) \<Rightarrow> st1
      | (Inl e, st1) \<Rightarrow>
          if is_FileNotFoundError e
          then print (''Warning: Input file '' @ [CHR 0x27] @ cfg_input_filename file_config
                        @ [CHR 0x27] @ '' not found, skipping...'') st1
          else print (''Error processing '' @ cfg_input_filename file_config @ '': '' @ exn_str e) st1)"

text \<open>Lines 391 to 404: the loop, and the line printed after it.\<close>

definition process_all :: "env \<Rightarrow> job list \<Rightarrow> state \<Rightarrow> state" where
  "process_all env files_to_process st =
     print ''All files processed!''
       (foldl (\<lambda>st1 file_config. process_job env file_config st1) st files_to_process)"

section \<open>Properties of documents\<close>

text \<open>A property of the name and the attributes that holds of every tag of a tree.\<close>

fun every_tag :: "(string \<Rightarrow> (string \<times> string) list \<Rightarrow> bool) \<Rightarrow> node \<Rightarrow> bool" where
  "every_tag P (NavigableString s) = True"
| "every_tag P (Tag name attrs children) = (P name attrs \<and> list_all (every_tag P) children)"

text \<open>
  What the sanitizer establishes for a tag: it is no script element, and an anchor that has
  an \<^verbatim>\<open>href\<close> has the replacement as its \<^verbatim>\<open>href\<close> and has no \<^verbatim>\<open>ping\<close>.
\<close>

definition sanitized_tag :: "string \<Rightarrow> string \<Rightarrow> (string \<times> string) list \<Rightarrow> bool" where
  "sanitized_tag link_replacement name attrs =
     (name \<noteq> ''script''
      \<and> (name = ''a'' \<and> has_key attrs ''href''
           \<longrightarrow> map_of attrs ''href'' = Some link_replacement \<and> \<not> has_key attrs ''ping''))"

text \<open>The same without the restriction to anchors that have an \<^verbatim>\<open>href\<close>: no anchor has a \<^verbatim>\<open>ping\<close>.\<close>

definition no_ping :: "string \<Rightarrow> (string \<times> string) list \<Rightarrow> bool" where
  "no_ping name attrs = (name = ''a'' \<longrightarrow> \<not> has_key attrs ''ping'')"

text \<open>The URLs that a step has requested: the requests of the state after it that are new.\<close>

definition new_requests :: "state \<Rightarrow> state \<Rightarrow> string list" where
  "new_requests st st1 = drop (length (requests st)) (requests st1)"

text \<open>The lines that the loop over the jobs prints for a job: at its start, and for an exception.\<close>

definition started_line :: "job \<Rightarrow> string" where
  "started_line file_config =
     ''Processing '' @ cfg_input_filename file_config @ '' -> '' @ cfg_output_filename file_config"

definition report_line :: "job \<Rightarrow> exn \<Rightarrow> string" where
  "report_line file_config e =
     (if is_FileNotFoundError e
      then ''Warning: Input file '' @ [CHR 0x27] @ cfg_input_filename file_config
             @ [CHR 0x27] @ '' not found, skipping...''
      else ''Error processing '' @ cfg_input_filename file_config @ '': '' @ exn_str e)"

text \<open>The state in which the loop starts the job at position \<open>i\<close>.\<close>

definition state_before :: "env \<Rightarrow> job list \<Rightarrow> state \<Rightarrow> nat \<Rightarrow> state" where
  "state_before env files_to_process st i =
     foldl (\<lambda>st1 file_config. process_job env file_config st1) st (take i files_to_process)"

text \<open>The run of one job by \<^verbatim>\<open>process_html_file\<close>, as the loop calls it.\<close>

definition run_job :: "env \<Rightarrow> job \<Rightarrow> state \<Rightarrow> (exn + unit) \<times> state" where
  "run_job env file_config st =
     process_html_file env (cfg_input_filename file_config) (cfg_output_filename file_config)
       (cfg_link_replacement file_config) (cfg_base_url file_config) st"

section \<open>Inputs of the examples\<close>

text \<open>
  A transport that answers every request with the same body, and one that answers every
  request with the status 404; the working directory is \<^verbatim>\<open>/w\<close>.
\<close>

definition env_ok :: env where
  "env_ok = \<lparr>http_get = (\<lambda>url. Inr ''body''), getcwd = ''/w'',
             bracketed_host_check = (\<lambda>host. None),
             parse_html = (\<lambda>html. []), prettify = (\<lambda>soup. [])\<rparr>"

definition env_404 :: env where
  "env_404 = \<lparr>http_get = (\<lambda>url. Inl (HTTPError ''404 Client Error: Not Found'')), getcwd = ''/w'',
              bracketed_host_check = (\<lambda>host. None),
              parse_html = (\<lambda>html. []), prettify = (\<lambda>soup. [])\<rparr>"

definition st_empty :: state where
  "st_empty = \<lparr>files = Map.empty, console = [], requests = [], downloaded_resources = []\<rparr>"

text \<open>Every line printed before a step is still on the console after it.\<close>

definition console_kept :: "state \<Rightarrow> state \<Rightarrow> bool" where
  "console_kept st st1 = (set (console st) \<subseteq> set (console st1))"

text \<open>
  Two jobs: the input file of the first does not exist, that of the second is an empty file,
  which parses to a document without nodes.
\<close>

definition job_missing :: job where
  "job_missing = \<lparr>cfg_input_filename = ''missing.html'', cfg_output_filename = ''out1.html'',
                   cfg_link_replacement = ''#'', cfg_base_url = ''https://example.com''\<rparr>"

definition job_page :: job where
  "job_page = \<lparr>cfg_input_filename = ''page.html'', cfg_output_filename = ''out2.html'',
                cfg_link_replacement = ''#'', cfg_base_url = ''https://example.com''\<rparr>"

definition st_page :: state where
  "st_page = \<lparr>files = [''/w/page.html'' \<mapsto> []], console = [], requests = [],
               downloaded_resources = []\<rparr>"

text \<open>
  A step from \<open>st\<close> to \<open>st1\<close> handles a reference as the URL \<open>url\<close>: when the dictionary has
  \<open>url\<close> nothing is requested; when it has not, and the synthesizer gives \<open>local_path\<close> for
  \<open>url\<close> and the transport gives \<open>body\<close> for \<open>url\<close>, then \<open>url\<close> is the one URL requested, the
  body is in the file at \<open>local_path\<close>, and \<open>url\<close> is a key of the dictionary.
\<close>

definition handled_as :: "env \<Rightarrow> string \<Rightarrow> string \<Rightarrow> string \<Rightarrow> state \<Rightarrow> state \<Rightarrow> bool" where
  "handled_as env url local_path body st st1 =
     ((has_key (downloaded_resources st) url \<longrightarrow> new_requests st st1 = [])
      \<and> (\<not> has_key (downloaded_resources st) url
           \<and> create_local_filename (bracketed_host_check env) url ''resources'' = Inr local_path
           \<and> http_get env url = Inr body
          \<longrightarrow> new_requests st st1 = [url]
              \<and> files st1 (os_path_abspath (getcwd env) local_path) = Some body
              \<and> has_key (downloaded_resources st1) url))"

text \<open>
  A page whose image is also the background of an inline style element; a page whose inline
  style element refers to a fragment; a page with a stylesheet, and a transport that gives
  that stylesheet a relative reference; a page with a protocol-relative script.
\<close>

definition doc_cached :: "node list" where
  "doc_cached =
     [Tag ''img'' [(''src'', ''https://example.com/logo.png'')] [],
      Tag ''style'' [] [NavigableString ''a{background:url(https://example.com/logo.png)}'']]"

definition doc_fragment :: "node list" where
  "doc_fragment = [Tag ''style'' [] [NavigableString ''b{filter:url(#blur)}'']]"

definition doc_stylesheet :: "node list" where
  "doc_stylesheet =
     [Tag ''link'' [(''rel'', ''stylesheet''), (''href'', ''https://example.com/s.css'')] []]"

definition env_css :: env where
  "env_css = env_ok\<lparr>http_get :=
     (\<lambda>url. if url = ''https://example.com/s.css'' then Inr ''body{background:url(/logo.png)}''
            else Inr ''body'')\<rparr>"

definition doc_script :: "node list" where
  "doc_script = [Tag ''script'' [(''src'', ''//cdn.example.com/a.js'')] []]"

text \<open>
  The file name that the synthesizer has for a URL before it splices the hash in, when the
  URL parses.
\<close>

definition stem_of :: "(string \<Rightarrow> string option) \<Rightarrow> string \<Rightarrow> string option" where
  "stem_of check_bracketed_host url =
     (case urlparse check_bracketed_host url [] of
        Inl e \<Rightarrow> None
      | Inr parsed \<Rightarrow> Some (local_basename parsed url))"

text \<open>The state after the first download of the examples has failed, and after it has succeeded.\<close>

definition st_failed :: state where
  "st_failed =
     \<lparr>files = Map.empty,
      console = [''  Downloading: https://example.com/a.js'',
                 ''    Failed to download https://example.com/a.js: 404 Client Error: Not Found''],
      requests = [''https://example.com/a.js''],
      downloaded_resources = []\<rparr>"

definition st_logo :: state where
  "st_logo =
     \<lparr>files = [''/w/resources/logo_78761c80.png'' \<mapsto> ''body''],
      console = [''  Downloading: https://example.com/logo.png'',
                 ''    Saved to: resources/logo_78761c80.png''],
      requests = [''https://example.com/logo.png''],
      downloaded_resources = [(''https://example.com/logo.png'', ''resources/logo_78761c80.png'')]\<rparr>"


section \<open>Properties of the attribute pass\<close>








section \<open>More inputs of the examples\<close>


definition doc_icon :: "node list" where
  "doc_icon = [Tag ''link'' [(''rel'', ''icon''), (''href'', ''/logo.png'')] []]"

definition env_logo :: env where
  "env_logo = env_404\<lparr>http_get :=
     (\<lambda>url. if url = ''https://example.com/logo.png'' then Inr ''body''
            else Inl (HTTPError ''404 Client Error: Not Found''))\<rparr>"

text \<open>
  A page whose inline style element names two fonts, the URL of the second a prefix of the
  URL of the first, and a transport that answers 404 for the first and answers the second.
\<close>

definition env_fonts :: env where
  "env_fonts = env_ok\<lparr>http_get :=
     (\<lambda>url. if url = ''https://example.com/x.woff2''
            then Inl (HTTPError ''404 Client Error: Not Found'') else Inr ''body'')\<rparr>"

definition doc_fonts :: "node list" where
  "doc_fonts =
     [Tag ''style'' []
        [NavigableString
           ''@font-face{src:url(https://example.com/x.woff2),url(https://example.com/x.woff)}'']]"

section \<open>Dictionary facts\<close>

lemma map_of_dict_set: "map_of (dict_set k v kvs) k' = (if k' = k then Some v else map_of kvs k')"
  by (induction kvs) auto

lemma map_of_dict_del: "map_of (dict_del k kvs) k' = (if k' = k then None else map_of kvs k')"
  by (induction kvs) (auto simp: dict_del_def)

section \<open>The sanitizer: claim C6\<close>

lemma remove_scripts_no_script:
  "\<not> is_script n \<Longrightarrow> every_tag (\<lambda>name attrs. name \<noteq> ''script'') (remove_scripts n)"
proof (induction n)
  case (Tag name attrs children)
  then show ?case
    by (auto simp: list_all_iff)
next
  case (NavigableString s)
  then show ?case by simp
qed

lemma replace_links_sanitized:
  "every_tag (\<lambda>name attrs. name \<noteq> ''script'') n
     \<Longrightarrow> every_tag (sanitized_tag lr) (replace_links lr n)"
proof (induction n)
  case (Tag name attrs children)
  then show ?case
    by (auto simp: list_all_iff sanitized_tag_def has_key_def map_of_dict_set map_of_dict_del)
next
  case (NavigableString s)
  then show ?case by simp
qed

text \<open>
  Claim C6, as the code has it. After the sanitizer, for every document and every
  replacement value: no tag of the document is a script element, every anchor that has an
  \<^verbatim>\<open>href\<close> has the replacement value as its \<^verbatim>\<open>href\<close>, and no anchor that has an \<^verbatim>\<open>href\<close>
  has a \<^verbatim>\<open>ping\<close> attribute.
\<close>

theorem sanitizer_postcondition:
  "list_all (every_tag (sanitized_tag link_replacement)) (sanitize link_replacement soup)"
  by (simp add: sanitize_def list_all_iff remove_scripts_no_script replace_links_sanitized)

text \<open>
  The document of the end-to-end scenario of the specification: the script element goes, the
  anchor keeps only its \<^verbatim>\<open>href\<close>, now \<^verbatim>\<open>#\<close>.
\<close>

theorem sanitizer_postcondition_witness:
  "sanitize ''#''
     [Tag ''a'' [(''href'', ''https://x.com''), (''ping'', ''https://t.co'')] [NavigableString ''Go''],
      Tag ''script'' [(''src'', ''a.js'')] []]
     = [Tag ''a'' [(''href'', ''#'')] [NavigableString ''Go'']]
   \<and> list_all (every_tag (sanitized_tag ''#''))
        (sanitize ''#''
           [Tag ''a'' [(''href'', ''https://x.com''), (''ping'', ''https://t.co'')]
              [NavigableString ''Go''],
            Tag ''script'' [(''src'', ''a.js'')] []])"
  using sanitizer_postcondition [of "''#''"
      "[Tag ''a'' [(''href'', ''https://x.com''), (''ping'', ''https://t.co'')] [NavigableString ''Go''],
        Tag ''script'' [(''src'', ''a.js'')] []]"]
  by (simp add: sanitize_def has_key_def dict_del_def)

text \<open>
  Claim C6 as it is stated says that no anchor at all keeps a \<^verbatim>\<open>ping\<close> attribute. The loop
  of line 376 visits \<^verbatim>\<open>soup.find_all("a", href=True)\<close> only: an anchor without \<^verbatim>\<open>href\<close>
  keeps its \<^verbatim>\<open>ping\<close>.
\<close>

theorem ping_without_href_counterexample:
  "\<not> list_all (every_tag no_ping)
       (sanitize ''#'' [Tag ''a'' [(''ping'', ''https://t.co'')] [NavigableString ''Go'']])"
  by (simp add: sanitize_def no_ping_def has_key_def)

section \<open>The filename synthesizer: claims C8 and C9\<close>

lemma splitext_fst_take: "\<exists>n. fst (os_path_splitext p) = take n p"
proof (cases "snd (os_path_splitext p) = []")
  case True
  then have "fst (os_path_splitext p) = p"
    by (auto simp: os_path_splitext_def Let_def split: if_splits)
  then show ?thesis by (metis take_all order_refl)
next
  case False
  then show ?thesis
    by (auto simp: os_path_splitext_def Let_def split: if_splits)
qed

lemma isalnum_slash: "\<not> isalnum CHR ''/''"
  by (simp add: isalnum_def code_def)

lemma local_basename_chars:
  "c \<in> set (local_basename parsed url) \<Longrightarrow> c \<noteq> CHR ''/''"
proof -
  assume "c \<in> set (local_basename parsed url)"
  then obtain xs where "c \<in> set (rstrip (filter (\<lambda>c. isalnum c \<or> c \<in> set ''.-_'') xs))"
    unfolding local_basename_def Let_def by blast
  then have "c \<in> set (filter (\<lambda>c. isalnum c \<or> c \<in> set ''.-_'') xs)"
    unfolding rstrip_def using set_dropWhileD by fastforce
  then show ?thesis using isalnum_slash by auto
qed

lemma startswith_slash: "startswith s ''/'' \<longleftrightarrow> (\<exists>t. s = CHR ''/'' # t)"
  by (cases s) (auto simp: startswith_def)

lemma safe_filename_not_absolute:
  "\<not> startswith (fst (os_path_splitext (local_basename parsed url)) @ ''_'' @ h @ e) ''/''"
proof -
  obtain n where n: "fst (os_path_splitext (local_basename parsed url)) = take n (local_basename parsed url)"
    using splitext_fst_take by blast
  show ?thesis
  proof (cases "take n (local_basename parsed url)")
    case Nil
    then have "fst (os_path_splitext (local_basename parsed url)) = []" using n by simp
    then show ?thesis by (simp add: startswith_slash)
  next
    case (Cons c cs)
    then have "c \<in> set (local_basename parsed url)"
      by (metis in_set_takeD list.set_intros(1))
    then have "c \<noteq> CHR ''/''" by (rule local_basename_chars)
    moreover have "fst (os_path_splitext (local_basename parsed url)) = c # cs" using n Cons by simp
    ultimately show ?thesis by (simp add: startswith_slash)
  qed
qed

lemma os_path_join_inject:
  "\<not> startswith b ''/'' \<Longrightarrow> \<not> startswith b' ''/'' \<Longrightarrow> os_path_join a b = os_path_join a b' \<Longrightarrow> b = b'"
  by (auto simp: os_path_join_def startswith_slash split: if_splits)

text \<open>
  Claim C9, as the code has it. Two URLs that synthesize the same file name before the hash
  is spliced in get distinct paths whenever the first eight hexadecimal characters of
  their MD5 digests differ.
\<close>

theorem distinct_hash_distinct_path:
  assumes "stem_of chk url1 = Some filename" and "stem_of chk url2 = Some filename"
    and "url_hash url1 \<noteq> url_hash url2"
  shows "create_local_filename chk url1 resources_dir \<noteq> create_local_filename chk url2 resources_dir"
proof
  assume eq: "create_local_filename chk url1 resources_dir = create_local_filename chk url2 resources_dir"
  obtain parsed1 parsed2
    where p: "urlparse chk url1 [] = Inr parsed1" "urlparse chk url2 [] = Inr parsed2"
      and f: "local_basename parsed1 url1 = filename" "local_basename parsed2 url2 = filename"
    using assms(1,2) by (auto simp: stem_of_def split: sum.splits)
  let ?n = "fst (os_path_splitext filename)" and ?e = "snd (os_path_splitext filename)"
  from eq p f
  have "os_path_join resources_dir (?n @ ''_'' @ url_hash url1 @ ?e)
          = os_path_join resources_dir (?n @ ''_'' @ url_hash url2 @ ?e)"
    by (simp add: create_local_filename_def Let_def)
  moreover have "\<not> startswith (?n @ ''_'' @ h @ ?e) ''/''" for h
    using safe_filename_not_absolute [of parsed1 url1 h ?e] f by simp
  ultimately have "?n @ ''_'' @ url_hash url1 @ ?e = ?n @ ''_'' @ url_hash url2 @ ?e"
    using os_path_join_inject by blast
  then show False using assms(3) by simp
qed

section \<open>The console only grows\<close>

lemma console_kept_refl: "console_kept st st"
  by (simp add: console_kept_def)

lemma console_kept_trans: "console_kept st st1 \<Longrightarrow> console_kept st1 st2 \<Longrightarrow> console_kept st st2"
  by (auto simp: console_kept_def)

lemma console_kept_print: "console_kept st st1 \<Longrightarrow> console_kept st (print l st1)"
  by (auto simp: console_kept_def print_def)

lemma console_kept_write_file: "console_kept st st1 \<Longrightarrow> console_kept st (write_file env p c st1)"
  by (auto simp: console_kept_def write_file_def)

lemma console_download_resource:
  "download_resource env url lp st = (ok, st1) \<Longrightarrow> console_kept st st1"
  by (auto simp: download_resource_def Let_def console_kept_def print_def write_file_def
      split: sum.splits if_splits)

lemma console_localize:
  "localize env out url st = (r, st1) \<Longrightarrow> console_kept st st1"
  by (auto simp: localize_def Let_def console_kept_refl
      split: sum.splits bool.splits prod.splits dest!: console_download_resource)
     (auto simp: console_kept_def)

lemma console_localize_element:
  "localize_element env b out attr attrs st = (r, st1) \<Longrightarrow> console_kept st st1"
  by (auto simp: localize_element_def console_kept_refl
      split: option.splits sum.splits prod.splits if_splits dest: console_localize)

lemma console_select_visitor:
  "select_visitor env b out sel attr name attrs children st = (r, st1) \<Longrightarrow> console_kept st st1"
  by (auto simp: select_visitor_def console_kept_refl
      split: sum.splits prod.splits if_splits dest: console_localize_element)

lemma console_for_each:
  assumes "\<And>x acc st r st1. f x acc st = (r, st1) \<Longrightarrow> console_kept st st1"
  shows "for_each f xs acc st = (r, st1) \<Longrightarrow> console_kept st st1"
proof (induction xs arbitrary: acc st)
  case Nil
  then show ?case by (simp add: console_kept_refl)
next
  case (Cons x xs)
  obtain r0 st0 where s: "f x acc st = (r0, st0)" by force
  have 1: "console_kept st st0" using assms s by blast
  show ?case
  proof (cases r0)
    case (Inl e)
    then show ?thesis using s 1 Cons.prems by simp
  next
    case (Inr acc1)
    then have "for_each f xs acc1 st0 = (r, st1)" using s Cons.prems by simp
    then show ?thesis using 1 Cons.IH console_kept_trans by blast
  qed
qed

lemma console_walk:
  assumes "\<And>name attrs children st r st1. f name attrs children st = (r, st1) \<Longrightarrow> console_kept st st1"
  shows "walk f n st = (rn, st1) \<Longrightarrow> console_kept st st1"
    and "walk_list f ns st = (rns, st1) \<Longrightarrow> console_kept st st1"
  using assms
proof (induction f n st and f ns st arbitrary: rn st1 and rns st1 rule: walk_walk_list.induct)
  case (1 f s st)
  then show ?case by (simp add: console_kept_refl)
next
  case (2 f name attrs children st)
  obtain r0 st0 where s: "f name attrs children st = (r0, st0)" by force
  have 1: "console_kept st st0" using 2(3) s by blast
  show ?case
  proof (cases r0)
    case (Inl e)
    then show ?thesis using s 1 2(2) by simp
  next
    case (Inr p)
    obtain attrs1 t where p: "p = (attrs1, t)" by force
    show ?thesis
    proof (cases t)
      case None
      obtain rc st2 where w: "walk_list f children st0 = (rc, st2)" by force
      have "console_kept st0 st2"
        using 2(1) [OF s [symmetric] Inr p [symmetric] None w] 2(3) by blast
      moreover have "st1 = st2" using 2(2) s Inr p None w by (auto split: sum.splits)
      ultimately show ?thesis using 1 console_kept_trans by blast
    next
      case (Some new_text)
      then show ?thesis using s 1 Inr p 2(2) by simp
    qed
  qed
next
  case (3 f st)
  then show ?case by (simp add: console_kept_refl)
next
  case (4 f n ns st)
  obtain r0 st0 where s: "walk f n st = (r0, st0)" by force
  have 1: "console_kept st st0" using 4(1) [OF s] 4(4) by blast
  show ?case
  proof (cases r0)
    case (Inl e)
    then show ?thesis using s 1 4(3) by simp
  next
    case (Inr n1)
    obtain rc st2 where w: "walk_list f ns st0 = (rc, st2)" by force
    have "console_kept st0 st2"
      using 4(2) [OF s [symmetric] Inr w] 4(4) by blast
    moreover have "st1 = st2" using 4(3) s Inr w by (auto split: sum.splits)
    ultimately show ?thesis using 1 console_kept_trans by blast
  qed
qed


lemma console_external_css_url:
  "external_css_url env b out ref css st = (r, st1) \<Longrightarrow> console_kept st st1"
  by (auto simp: external_css_url_def console_kept_refl
      split: option.splits sum.splits prod.splits if_splits dest: console_localize)

lemma console_inline_css_url:
  "inline_css_url env b out ref css st = (r, st1) \<Longrightarrow> console_kept st st1"
  by (auto simp: inline_css_url_def console_kept_refl
      split: option.splits sum.splits prod.splits if_splits dest: console_localize)

lemma console_style_attr_url:
  "style_attr_url env b out ref css st = (r, st1) \<Longrightarrow> console_kept st st1"
  by (auto simp: style_attr_url_def console_kept_refl
      split: option.splits sum.splits prod.splits if_splits dest: console_localize)

lemma console_external_css_loop:
  "for_each (external_css_url env b out) refs css st = (r, st1) \<Longrightarrow> console_kept st st1"
  by (rule console_for_each [where f = "external_css_url env b out"])
     (rule console_external_css_url)

lemma console_inline_css_loop:
  "for_each (inline_css_url env b out) refs css st = (r, st1) \<Longrightarrow> console_kept st st1"
  by (rule console_for_each [where f = "inline_css_url env b out"])
     (rule console_inline_css_url)

lemma console_style_attr_loop:
  "for_each (style_attr_url env b out) refs css st = (r, st1) \<Longrightarrow> console_kept st st1"
  by (rule console_for_each [where f = "style_attr_url env b out"])
     (rule console_style_attr_url)

lemma console_external_css_file:
  "console_kept st (external_css_file env b out css_file st)"
proof (cases "read_file env css_file st")
  case None
  then show ?thesis
    by (simp add: external_css_file_def console_kept_print console_kept_refl)
next
  case (Some css)
  obtain r st1 where f: "for_each (external_css_url env b out) (find_css_urls css) css st = (r, st1)"
    by force
  have "console_kept st st1"
    using console_external_css_loop [OF f] .
  then show ?thesis using Some f
    by (auto simp: external_css_file_def console_kept_print console_kept_write_file split: sum.splits)
qed

lemma console_foldl:
  assumes "\<And>x st. console_kept st (f st x)"
  shows "console_kept st (foldl f st xs)"
proof (induction xs arbitrary: st)
  case Nil
  then show ?case by (simp add: console_kept_refl)
next
  case (Cons x xs)
  then show ?case using assms console_kept_trans by fastforce
qed

lemma console_external_css_pass:
  "console_kept st (external_css_pass env b out st)"
  unfolding external_css_pass_def
  by (rule console_foldl) (rule console_external_css_file)

lemma console_style_tag_visitor:
  "style_tag_visitor env b out name attrs children st = (r, st1) \<Longrightarrow> console_kept st st1"
  by (auto simp: style_tag_visitor_def console_kept_refl
      split: option.splits sum.splits prod.splits if_splits
      dest: console_inline_css_loop)

lemma console_style_attr_visitor:
  "style_attr_visitor env b out name attrs children st = (r, st1) \<Longrightarrow> console_kept st st1"
  by (auto simp: style_attr_visitor_def console_kept_refl
      split: option.splits sum.splits prod.splits if_splits
      dest: console_style_attr_loop)

lemma console_select_walk:
  "walk_list (select_visitor env b out sel attr) soup st = (r, st1) \<Longrightarrow> console_kept st st1"
  by (rule console_walk(2) [where f = "select_visitor env b out sel attr"])
     (auto dest: console_select_visitor)

lemma console_style_tag_walk:
  "walk_list (style_tag_visitor env b out) soup st = (r, st1) \<Longrightarrow> console_kept st st1"
  by (rule console_walk(2) [where f = "style_tag_visitor env b out"])
     (auto dest: console_style_tag_visitor)

lemma console_style_attr_walk:
  "walk_list (style_attr_visitor env b out) soup st = (r, st1) \<Longrightarrow> console_kept st st1"
  by (rule console_walk(2) [where f = "style_attr_visitor env b out"])
     (auto dest: console_style_attr_visitor)

lemma console_attribute_pass:
  "attribute_pass env b out soup st = (r, st1) \<Longrightarrow> console_kept st st1"
  unfolding attribute_pass_def
  by (rule console_for_each
        [where f = "\<lambda>(sel, attr) soup1 st1. walk_list (select_visitor env b out sel attr) soup1 st1"])
     (auto dest: console_select_walk)

lemma console_rewrite_passes:
  assumes "rewrite_passes env b out soup st = (r, st1)"
  shows "console_kept st st1"
proof -
  let ?st0 = "print ''  Downloading external resources...'' st"
  obtain r1 s1 where ap: "attribute_pass env b out soup ?st0 = (r1, s1)" by force
  have 1: "console_kept st s1"
    using console_kept_trans [OF console_kept_print [OF console_kept_refl] console_attribute_pass [OF ap]] .
  show ?thesis
  proof (cases r1)
    case (Inl e)
    then have "st1 = s1" using assms ap by (simp add: rewrite_passes_def)
    then show ?thesis using 1 by simp
  next
    case (Inr soup1)
    let ?st2 = "print ''  Processing inline CSS for embedded resources...''
                  (external_css_pass env b out
                     (print ''  Processing CSS files for embedded resources...'' s1))"
    have 2: "console_kept s1 ?st2"
      by (intro console_kept_print)
         (rule console_kept_trans [OF console_kept_print [OF console_kept_refl] console_external_css_pass])
    obtain r2 s2 where sw: "walk_list (style_tag_visitor env b out) soup1 ?st2 = (r2, s2)"
      by force
    have 3: "console_kept st s2"
      using 1 2 console_style_tag_walk [OF sw] console_kept_trans by blast
    show ?thesis
    proof (cases r2)
      case (Inl e)
      then have "st1 = s2" using assms ap \<open>r1 = Inr soup1\<close> sw by (simp add: rewrite_passes_def)
      then show ?thesis using 3 by simp
    next
      case (Inr soup2)
      then have aw: "walk_list (style_attr_visitor env b out) soup2
                       (print ''  Processing inline style attributes for background images...'' s2)
                     = (r, st1)"
        using assms ap \<open>r1 = Inr soup1\<close> sw by (simp add: rewrite_passes_def)
      show ?thesis
        using 3 console_kept_trans [OF console_kept_print [OF console_kept_refl] console_style_attr_walk [OF aw]]
          console_kept_trans by blast
    qed
  qed
qed

lemma console_process_html_file:
  "process_html_file env input_file output_file lr b st = (r, st1)
     \<Longrightarrow> ''Processing '' @ input_file @ '' -> '' @ output_file \<in> set (console st1)
         \<and> console_kept st st1"
proof -
  assume a: "process_html_file env input_file output_file lr b st = (r, st1)"
  let ?st1 = "print (''  Base URL: '' @ b) (print (''Processing '' @ input_file @ '' -> '' @ output_file) st)"
  have 0: "''Processing '' @ input_file @ '' -> '' @ output_file \<in> set (console ?st1)"
    by (simp add: print_def)
  have "console_kept ?st1 st1"
  proof (cases "read_file env input_file ?st1")
    case None
    then show ?thesis using a by (simp add: process_html_file_def console_kept_refl)
  next
    case (Some html)
    let ?st2 = "?st1\<lparr>downloaded_resources := []\<rparr>"
    have 2: "console_kept ?st1 ?st2" by (auto simp: console_kept_def)
    obtain r2 st2 where rp: "rewrite_passes env b output_file (parse_html env html) ?st2 = (r2, st2)"
      by force
    have 3: "console_kept ?st2 st2" using console_rewrite_passes [OF rp] .
    show ?thesis
    proof (cases r2)
      case (Inl e)
      then have "st1 = st2" using a Some rp by (simp add: process_html_file_def)
      then show ?thesis using 2 3 console_kept_trans by blast
    next
      case (Inr soup1)
      then have "console_kept st2 st1" using a Some rp
        by (auto simp: process_html_file_def console_kept_def print_def write_file_def)
      then show ?thesis using 2 3 console_kept_trans by blast
    qed
  qed
  then show ?thesis using 0 by (auto simp: console_kept_def print_def)
qed

section \<open>The loop over the jobs: claim C7\<close>

lemma process_job_console:
  "console_kept st (process_job env j st)"
  "started_line j \<in> set (console (process_job env j st))"
  "fst (run_job env j st) = Inl e \<Longrightarrow> report_line j e \<in> set (console (process_job env j st))"
proof -
  obtain r st1 where p: "run_job env j st = (r, st1)" by force
  then have q: "process_html_file env (cfg_input_filename j) (cfg_output_filename j)
                  (cfg_link_replacement j) (cfg_base_url j) st = (r, st1)"
    by (simp add: run_job_def)
  note c = console_process_html_file [OF q]
  show "console_kept st (process_job env j st)"
    using c q by (cases r) (auto simp: process_job_def console_kept_def print_def)
  show "started_line j \<in> set (console (process_job env j st))"
    using c q by (cases r) (auto simp: process_job_def started_line_def print_def)
  show "report_line j e \<in> set (console (process_job env j st))" if "fst (run_job env j st) = Inl e"
    using that p q by (auto simp: process_job_def report_line_def print_def)
qed

lemma foldl_process_job_kept:
  "console_kept st (foldl (\<lambda>st1 file_config. process_job env file_config st1) st js)"
  by (rule console_foldl) (rule process_job_console(1))

text \<open>
  Claim C7. For every list of jobs and every state in which the run starts: the run reaches
  its last line; every job is started, whatever happened to the jobs before it; and when
  \<^verbatim>\<open>process_html_file\<close> raises an exception for a job, in the state in which the loop
  starts that job, the handler's line for that exception is printed.
\<close>

theorem job_errors_do_not_stop_the_run:
  "last (console (process_all env files_to_process st)) = ''All files processed!''
   \<and> (\<forall>i < length files_to_process.
         started_line (files_to_process ! i) \<in> set (console (process_all env files_to_process st))
         \<and> (\<forall>e. fst (run_job env (files_to_process ! i) (state_before env files_to_process st i)) = Inl e
                \<longrightarrow> report_line (files_to_process ! i) e
                      \<in> set (console (process_all env files_to_process st))))"
proof (intro conjI allI impI)
  show "last (console (process_all env files_to_process st)) = ''All files processed!''"
    by (simp add: process_all_def print_def)
next
  fix i assume i: "i < length files_to_process"
  let ?f = "\<lambda>st1 file_config. process_job env file_config st1"
  let ?j = "files_to_process ! i"
  let ?before = "state_before env files_to_process st i"
  have split: "files_to_process = take i files_to_process @ ?j # drop (Suc i) files_to_process"
    using i by (simp add: id_take_nth_drop)
  have "foldl ?f st files_to_process
          = foldl ?f (process_job env ?j ?before) (drop (Suc i) files_to_process)"
    by (subst split) (simp add: state_before_def)
  then have kept: "console_kept (process_job env ?j ?before) (process_all env files_to_process st)"
    using foldl_process_job_kept [of "process_job env ?j ?before" env "drop (Suc i) files_to_process"]
    by (simp add: process_all_def console_kept_def print_def subset_insertI2)
  show "started_line ?j \<in> set (console (process_all env files_to_process st))"
    using kept process_job_console(2) [of ?j env ?before] by (auto simp: console_kept_def)
  fix e assume "fst (run_job env ?j ?before) = Inl e"
  then show "report_line ?j e \<in> set (console (process_all env files_to_process st))"
    using kept process_job_console(3) [of env ?j ?before e] by (auto simp: console_kept_def)
qed


text \<open>A run of two jobs: the first input file is missing, the second job is still started.\<close>

lemma abspath_missing: "os_path_abspath ''/w'' ''missing.html'' = ''/w/missing.html''"
  by code_simp

theorem job_errors_do_not_stop_the_run_witness:
  "report_line job_missing (no_such_file ''missing.html'')
     \<in> set (console (process_all env_ok [job_missing, job_page] st_page))
   \<and> started_line job_page \<in> set (console (process_all env_ok [job_missing, job_page] st_page))"
proof -
  have raised: "fst (run_job env_ok ([job_missing, job_page] ! 0)
                  (state_before env_ok [job_missing, job_page] st_page 0))
                = Inl (no_such_file ''missing.html'')"
    by (simp add: state_before_def run_job_def job_missing_def process_html_file_def
        read_file_def print_def env_ok_def st_page_def abspath_missing)
  show ?thesis
    using job_errors_do_not_stop_the_run [of env_ok "[job_missing, job_page]" st_page] raised
    by (auto simp: less_Suc_eq)
qed

section \<open>Steps of the passes\<close>

lemma startswith_Nil: "startswith s []"
  by (simp add: startswith_def)

lemma startswith_Cons: "startswith s (c # p) \<longleftrightarrow> (\<exists>t. s = c # t \<and> startswith t p)"
  by (cases s) (auto simp: startswith_def)

lemma new_requests_same: "new_requests st st = []"
  by (simp add: new_requests_def)

lemma download_resource_effect:
  "download_resource env url lp st = (ok, st1) \<Longrightarrow>
     downloaded_resources st1 = downloaded_resources st
     \<and> ((\<not> ok \<and> st1 = st)
         \<or> (new_requests st st1 = [if startswith url ''//'' then ''https:'' @ url else url]
             \<and> (case http_get env (if startswith url ''//'' then ''https:'' @ url else url) of
                   Inl e \<Rightarrow> \<not> ok \<and> files st1 = files st
                 | Inr body \<Rightarrow> ok \<and> files st1 = (files st)(os_path_abspath (getcwd env) lp \<mapsto> body))))"
  by (auto simp: download_resource_def Let_def print_def write_file_def new_requests_def
      split: sum.splits if_splits)

lemma localize_failed:
  assumes "localize env out url st = (r, st1)"
    and "new_requests st st1 \<noteq> []"
    and "\<forall>u \<in> set (new_requests st st1). isl (http_get env u)"
  shows "r = Inr None \<and> downloaded_resources st1 = downloaded_resources st"
proof (cases "create_local_filename (bracketed_host_check env) url ''resources''")
  case (Inl e)
  then have "st1 = st" using assms(1) by (simp add: localize_def)
  then show ?thesis using assms(2) by (simp add: new_requests_same)
next
  case (Inr lp)
  obtain ok st0 where d: "download_resource env url lp st = (ok, st0)" by force
  note eff = download_resource_effect [OF d]
  show ?thesis
  proof (cases ok)
    case False
    then show ?thesis using assms(1) Inr d eff by (simp add: localize_def)
  next
    case True
    then have rq: "requests st1 = requests st0"
      using assms(1) Inr d by (auto simp: localize_def Let_def split: sum.splits)
    from True eff obtain u where "new_requests st st0 = [u]" "\<not> isl (http_get env u)"
      by (auto split: sum.splits)
    then have False using assms(3) rq by (simp add: new_requests_def)
    then show ?thesis ..
  qed
qed

lemma localize_element_failed:
  assumes "localize_element env b out attr attrs st = (r, st1)"
    and "new_requests st st1 \<noteq> []"
    and "\<forall>u \<in> set (new_requests st st1). isl (http_get env u)"
  shows "r = Inr attrs \<and> downloaded_resources st1 = downloaded_resources st"
  using assms
  by (auto simp: localize_element_def new_requests_same
      split: option.splits sum.splits prod.splits if_splits dest: localize_failed)

lemma external_css_url_failed:
  assumes "external_css_url env b out ref css st = (r, st1)"
    and "new_requests st st1 \<noteq> []"
    and "\<forall>u \<in> set (new_requests st st1). isl (http_get env u)"
  shows "r = Inr css \<and> downloaded_resources st1 = downloaded_resources st"
  using assms
  by (auto simp: external_css_url_def new_requests_same
      split: option.splits sum.splits prod.splits if_splits dest: localize_failed)

lemma inline_css_url_failed:
  assumes "inline_css_url env b out ref css st = (r, st1)"
    and "new_requests st st1 \<noteq> []"
    and "\<forall>u \<in> set (new_requests st st1). isl (http_get env u)"
  shows "r = Inr css \<and> downloaded_resources st1 = downloaded_resources st"
  using assms
  by (auto simp: inline_css_url_def new_requests_same
      split: option.splits sum.splits prod.splits if_splits dest: localize_failed)

lemma style_attr_url_failed:
  assumes "style_attr_url env b out ref css st = (r, st1)"
    and "new_requests st st1 \<noteq> []"
    and "\<forall>u \<in> set (new_requests st st1). isl (http_get env u)"
  shows "r = Inr css \<and> downloaded_resources st1 = downloaded_resources st"
  using assms
  by (auto simp: style_attr_url_def new_requests_same
      split: option.splits sum.splits prod.splits if_splits dest: localize_failed)

text \<open>
  The step at which a download fails. When a step for a reference has requested something
  from the transport and what it requested has failed, then in each of the four contexts
  the step raises nothing and returns the attributes or the CSS text that it was given, the
  dictionary is as it was before the step, and the loop goes on: with the children of the
  element in the attribute pass, with the remaining references in the three CSS passes.
  What the later steps of the loop do to the text is not part of this statement.
\<close>

lemma failed_fetch_is_skipped:
  assumes "new_requests st st1 \<noteq> []"
    and "\<forall>u \<in> set (new_requests st st1). isl (http_get env u)"
  shows
    "(localize_element env base_url output_file attr attrs st = (ra, st1) \<longrightarrow>
        ra = Inr attrs \<and> downloaded_resources st1 = downloaded_resources st
        \<and> (selects sel name attrs \<longrightarrow>
             walk (select_visitor env base_url output_file sel attr) (Tag name attrs children) st
               = (case walk_list (select_visitor env base_url output_file sel attr) children st1 of
                    (Inl e, st2) \<Rightarrow> (Inl e, st2)
                  | (Inr children1, st2) \<Rightarrow> (Inr (Tag name attrs children1), st2))))
     \<and> (external_css_url env base_url output_file ref css st = (re, st1) \<longrightarrow>
          re = Inr css \<and> downloaded_resources st1 = downloaded_resources st
          \<and> for_each (external_css_url env base_url output_file) (ref # refs) css st
              = for_each (external_css_url env base_url output_file) refs css st1)
     \<and> (inline_css_url env base_url output_file ref css st = (ri, st1) \<longrightarrow>
          ri = Inr css \<and> downloaded_resources st1 = downloaded_resources st
          \<and> for_each (inline_css_url env base_url output_file) (ref # refs) css st
              = for_each (inline_css_url env base_url output_file) refs css st1)
     \<and> (style_attr_url env base_url output_file ref css st = (rs, st1) \<longrightarrow>
          rs = Inr css \<and> downloaded_resources st1 = downloaded_resources st
          \<and> for_each (style_attr_url env base_url output_file) (ref # refs) css st
              = for_each (style_attr_url env base_url output_file) refs css st1)"
proof (intro conjI impI)
  assume a: "localize_element env base_url output_file attr attrs st = (ra, st1)"
  show "ra = Inr attrs" and "downloaded_resources st1 = downloaded_resources st"
    using localize_element_failed [OF a assms] by simp_all
  then show "walk (select_visitor env base_url output_file sel attr) (Tag name attrs children) st
               = (case walk_list (select_visitor env base_url output_file sel attr) children st1 of
                    (Inl e, st2) \<Rightarrow> (Inl e, st2)
                  | (Inr children1, st2) \<Rightarrow> (Inr (Tag name attrs children1), st2))"
    if "selects sel name attrs"
    using that a by (simp add: select_visitor_def)
next
  assume a: "external_css_url env base_url output_file ref css st = (re, st1)"
  show "re = Inr css" and "downloaded_resources st1 = downloaded_resources st"
    using external_css_url_failed [OF a assms] by simp_all
  then show "for_each (external_css_url env base_url output_file) (ref # refs) css st
              = for_each (external_css_url env base_url output_file) refs css st1"
    using a by simp
next
  assume a: "inline_css_url env base_url output_file ref css st = (ri, st1)"
  show "ri = Inr css" and "downloaded_resources st1 = downloaded_resources st"
    using inline_css_url_failed [OF a assms] by simp_all
  then show "for_each (inline_css_url env base_url output_file) (ref # refs) css st
              = for_each (inline_css_url env base_url output_file) refs css st1"
    using a by simp
next
  assume a: "style_attr_url env base_url output_file ref css st = (rs, st1)"
  show "rs = Inr css" and "downloaded_resources st1 = downloaded_resources st"
    using style_attr_url_failed [OF a assms] by simp_all
  then show "for_each (style_attr_url env base_url output_file) (ref # refs) css st
              = for_each (style_attr_url env base_url output_file) refs css st1"
    using a by simp
qed


lemma os_path_join_nonempty: "b \<noteq> [] \<Longrightarrow> os_path_join a b \<noteq> []"
  by (auto simp: os_path_join_def)

lemma create_local_filename_nonempty:
  "create_local_filename chk url d = Inr lp \<Longrightarrow> lp \<noteq> []"
  by (auto simp: create_local_filename_def Let_def os_path_join_nonempty split: sum.splits)

lemma localize_effect:
  assumes "localize env out url st = (r, st1)"
    and "startswith_any url [''http://'', ''https://'']"
    and "create_local_filename (bracketed_host_check env) url ''resources'' = Inr lp"
    and "http_get env url = Inr body"
  shows "new_requests st st1 = [url]
         \<and> files st1 (os_path_abspath (getcwd env) lp) = Some body
         \<and> (\<exists>p. r = Inr (Some p)
                \<and> downloaded_resources st1 = dict_set url p (downloaded_resources st))"
proof -
  have nss: "\<not> startswith url ''//''"
    using assms(2) by (auto simp: startswith_any_def startswith_Cons)
  obtain ok st0 where d: "download_resource env url lp st = (ok, st0)" by force
  have d': "ok \<and> new_requests st st0 = [url]
            \<and> files st0 = (files st)(os_path_abspath (getcwd env) lp \<mapsto> body)
            \<and> downloaded_resources st0 = downloaded_resources st"
    using d assms(2,4) nss
    by (auto simp: download_resource_def Let_def print_def write_file_def new_requests_def
        split: sum.splits if_splits)
  have "\<not> isl (os_path_relpath (getcwd env) lp (os_path_dirname out))"
    using create_local_filename_nonempty [OF assms(3)]
    by (simp add: os_path_relpath_def Let_def)
  then obtain p where p: "os_path_relpath (getcwd env) lp (os_path_dirname out) = Inr p"
    by (cases "os_path_relpath (getcwd env) lp (os_path_dirname out)") auto
  show ?thesis
    using assms(1,3) d d' p
    by (auto simp: localize_def Let_def new_requests_def)
qed

lemma handled_as_hit:
  "has_key (downloaded_resources st) url \<Longrightarrow> new_requests st st1 = []
     \<Longrightarrow> handled_as env url lp body st st1"
  by (simp add: handled_as_def)

lemma handled_as_miss:
  assumes "\<not> has_key (downloaded_resources st) url"
    and "localize env out url st = (r, st1)"
    and "startswith_any url [''http://'', ''https://'']"
  shows "handled_as env url lp body st st1"
proof -
  have "new_requests st st1 = [url]
        \<and> files st1 (os_path_abspath (getcwd env) lp) = Some body
        \<and> has_key (downloaded_resources st1) url"
    if "create_local_filename (bracketed_host_check env) url ''resources'' = Inr lp"
      and "http_get env url = Inr body"
    using localize_effect [OF assms(2,3) that]
    by (auto simp: has_key_def map_of_dict_set)
  then show ?thesis using assms(1) by (simp add: handled_as_def)
qed

lemma https_prefixed: "startswith_any (''https:'' @ ref) [''http://'', ''https://''] = startswith ref ''//''"
  by (auto simp: startswith_any_def startswith_Cons startswith_Nil)

text \<open>
  The three CSS passes and the fetcher, for a reference that starts with \<^verbatim>\<open>//\<close>. In the
  external stylesheet pass, the inline style element pass and the style attribute pass the
  reference resolves to the reference with \<^verbatim>\<open>https:\<close> in front, and that URL is the one that
  is looked up in the dictionary, requested, given to the filename synthesizer and recorded
  in the dictionary. The fetcher requests the URL with \<^verbatim>\<open>https:\<close> in front when it is
  given a URL that starts with \<^verbatim>\<open>//\<close>.
\<close>

lemma protocol_relative_css_reference:
  assumes "startswith ref ''//''"
  shows
    "resolve_css_url env base_url ref = Inr (''https:'' @ ref)
     \<and> (external_css_url env base_url output_file ref css st = (re, st1)
          \<longrightarrow> handled_as env (''https:'' @ ref) local_path body st st1)
     \<and> (inline_css_url env base_url output_file ref css st = (ri, st1)
          \<longrightarrow> handled_as env (''https:'' @ ref) local_path body st st1)
     \<and> (style_attr_url env base_url output_file ref css st = (rs, st1)
          \<longrightarrow> handled_as env (''https:'' @ ref) local_path body st st1)
     \<and> (download_resource env ref local_path st = (ok, st1)
          \<longrightarrow> new_requests st st1 = [''https:'' @ ref])"
proof (intro conjI impI)
  let ?u = "''https:'' @ ref"
  show res: "resolve_css_url env base_url ref = Inr ?u"
    using assms by (simp add: resolve_css_url_def)
  have pre: "startswith_any ?u [''http://'', ''https://'']"
    using assms https_prefixed by blast
  show "handled_as env ?u local_path body st st1"
    if a: "external_css_url env base_url output_file ref css st = (re, st1)"
  proof (cases "has_key (downloaded_resources st) ?u")
    case True
    then have "st1 = st" using a res by (simp add: external_css_url_def)
    then show ?thesis using True by (simp add: handled_as_hit new_requests_same)
  next
    case False
    obtain r0 st0 where l: "localize env output_file ?u st = (r0, st0)" by force
    then have "st1 = st0" using a res False pre
      by (auto simp: external_css_url_def split: sum.splits option.splits)
    then show ?thesis using handled_as_miss [OF False l pre] by simp
  qed
  show "handled_as env ?u local_path body st st1"
    if a: "inline_css_url env base_url output_file ref css st = (ri, st1)"
  proof (cases "has_key (downloaded_resources st) ?u")
    case True
    then have "st1 = st" using a res by (simp add: inline_css_url_def)
    then show ?thesis using True by (simp add: handled_as_hit new_requests_same)
  next
    case False
    obtain r0 st0 where l: "localize env output_file ?u st = (r0, st0)" by force
    then have "st1 = st0" using a res False pre
      by (auto simp: inline_css_url_def split: sum.splits option.splits)
    then show ?thesis using handled_as_miss [OF False l pre] by simp
  qed
  show "handled_as env ?u local_path body st st1"
    if a: "style_attr_url env base_url output_file ref css st = (rs, st1)"
  proof (cases "has_key (downloaded_resources st) ?u")
    case True
    then have "st1 = st" using a res
      by (auto simp: style_attr_url_def has_key_def split: option.splits)
    then show ?thesis using True by (simp add: handled_as_hit new_requests_same)
  next
    case False
    obtain r0 st0 where l: "localize env output_file ?u st = (r0, st0)" by force
    then have "st1 = st0" using a res False pre
      by (auto simp: style_attr_url_def has_key_def split: sum.splits option.splits)
    then show ?thesis using handled_as_miss [OF False l pre] by simp
  qed
  show "new_requests st st1 = [?u]" if "download_resource env ref local_path st = (ok, st1)"
    using that assms
    by (auto simp: download_resource_def Let_def print_def write_file_def new_requests_def
        split: sum.splits if_splits)
qed

section \<open>The attribute pass on link elements: claim C10\<close>

subsection \<open>Dictionaries and trees\<close>



lemma dict_set_mem: "(k, v) \<in> set (dict_set k v kvs)"
  by (induction kvs) auto


lemma snd_dict_set_new: "v \<in> snd ` set (dict_set k v kvs)"
  using dict_set_mem [of k v kvs] by force





subsection \<open>One download\<close>




subsection \<open>One walk\<close>





subsection \<open>The walks of the pass\<close>













section \<open>Evaluated examples\<close>

subsection \<open>Hashes and local paths\<close>

lemma url_hash_logo: "url_hash ''https://example.com/logo.png'' = ''78761c80''"
  by code_simp

lemma url_hash_css: "url_hash ''https://example.com/s.css'' = ''e4dbbd1b''"
  by code_simp

lemma url_hash_cdn9079: "url_hash ''https://cdn9079.example.com/logo.png'' = ''60cbf5dc''"
  by code_simp

lemma url_hash_cdn92352: "url_hash ''https://cdn92352.example.com/logo.png'' = ''60cbf5dc''"
  by code_simp

lemma stem_of_logo: "stem_of (\<lambda>host. None) ''https://example.com/logo.png'' = Some ''logo.png''"
  by code_simp

lemma stem_of_css: "stem_of (\<lambda>host. None) ''https://example.com/s.css'' = Some ''s.css''"
  by code_simp

lemma stem_of_cdn9079:
  "stem_of (\<lambda>host. None) ''https://cdn9079.example.com/logo.png'' = Some ''logo.png''"
  by code_simp

lemma stem_of_cdn92352:
  "stem_of (\<lambda>host. None) ''https://cdn92352.example.com/logo.png'' = Some ''logo.png''"
  by code_simp

lemma stem_of_script:
  "stem_of (\<lambda>host. None) ''https://example.com/a.js'' = Some ''a.js''"
  by code_simp

lemma stem_of_cdn_script:
  "stem_of (\<lambda>host. None) ''http://cdn.example.com/a.js'' = Some ''a.js''"
  by code_simp

lemma stem_of_fragment:
  "stem_of (\<lambda>host. None) ''https://example.com#blur'' = Some ''example_com.html''"
  by code_simp

lemma create_local_filename_stem:
  "stem_of chk url = Some filename \<Longrightarrow>
     create_local_filename chk url resources_dir
       = Inr (os_path_join resources_dir
                (fst (os_path_splitext filename) @ ''_'' @ url_hash url @ snd (os_path_splitext filename)))"
  by (auto simp: stem_of_def create_local_filename_def Let_def split: sum.splits)

lemma splitext_logo: "os_path_splitext ''logo.png'' = (''logo'', ''.png'')"
  by code_simp

lemma splitext_css: "os_path_splitext ''s.css'' = (''s'', ''.css'')"
  by code_simp

lemma join_logo: "os_path_join ''resources'' (''logo_'' @ h) = ''resources/logo_'' @ h"
  by (simp add: os_path_join_def startswith_def endswith_def)

lemma join_css: "os_path_join ''resources'' (''s_'' @ h) = ''resources/s_'' @ h"
  by (simp add: os_path_join_def startswith_def endswith_def)

lemma create_local_filename_logo:
  "create_local_filename (\<lambda>host. None) ''https://example.com/logo.png'' ''resources''
     = Inr ''resources/logo_78761c80.png''"
  using join_logo [of "''78761c80.png''"]
  by (simp add: create_local_filename_stem [OF stem_of_logo] splitext_logo url_hash_logo)

lemma create_local_filename_css:
  "create_local_filename (\<lambda>host. None) ''https://example.com/s.css'' ''resources''
     = Inr ''resources/s_e4dbbd1b.css''"
  using join_css [of "''e4dbbd1b.css''"]
  by (simp add: create_local_filename_stem [OF stem_of_css] splitext_css url_hash_css)

lemma create_local_filename_cdn9079:
  "create_local_filename (\<lambda>host. None) ''https://cdn9079.example.com/logo.png'' ''resources''
     = Inr ''resources/logo_60cbf5dc.png''"
  using join_logo [of "''60cbf5dc.png''"]
  by (simp add: create_local_filename_stem [OF stem_of_cdn9079] splitext_logo url_hash_cdn9079)

lemma create_local_filename_cdn92352:
  "create_local_filename (\<lambda>host. None) ''https://cdn92352.example.com/logo.png'' ''resources''
     = Inr ''resources/logo_60cbf5dc.png''"
  using join_logo [of "''60cbf5dc.png''"]
  by (simp add: create_local_filename_stem [OF stem_of_cdn92352] splitext_logo url_hash_cdn92352)

subsection \<open>The hash in the file name: claim C9\<close>

text \<open>
  Claim C9 as it is stated says that two distinct URLs with the same file name stem never
  get the same path. The hash has eight hexadecimal digits, so two URLs can have the same
  one: the MD5 digests of \<^verbatim>\<open>https://cdn9079.example.com/logo.png\<close> and of
  \<^verbatim>\<open>https://cdn92352.example.com/logo.png\<close> both start with \<^verbatim>\<open>60cbf5dc\<close>. The two URLs have
  the same final path segment on different hosts, and the synthesizer gives both the path
  \<^verbatim>\<open>resources/logo_60cbf5dc.png\<close>.
\<close>

theorem hash_collision_counterexample:
  "''https://cdn9079.example.com/logo.png'' \<noteq> ''https://cdn92352.example.com/logo.png''
   \<and> stem_of (\<lambda>host. None) ''https://cdn9079.example.com/logo.png''
       = stem_of (\<lambda>host. None) ''https://cdn92352.example.com/logo.png''
   \<and> create_local_filename (\<lambda>host. None) ''https://cdn9079.example.com/logo.png'' ''resources''
       = create_local_filename (\<lambda>host. None) ''https://cdn92352.example.com/logo.png'' ''resources''"
  by (simp add: stem_of_cdn9079 stem_of_cdn92352 create_local_filename_cdn9079
      create_local_filename_cdn92352)

text \<open>
  Two URLs with the stem \<^verbatim>\<open>logo.png\<close> and the hashes \<^verbatim>\<open>78761c80\<close> and \<^verbatim>\<open>60cbf5dc\<close>: the
  paths differ.
\<close>

theorem distinct_hash_distinct_path_witness:
  "stem_of (\<lambda>host. None) ''https://example.com/logo.png'' = Some ''logo.png''
   \<and> stem_of (\<lambda>host. None) ''https://cdn9079.example.com/logo.png'' = Some ''logo.png''
   \<and> url_hash ''https://example.com/logo.png'' \<noteq> url_hash ''https://cdn9079.example.com/logo.png''
   \<and> create_local_filename (\<lambda>host. None) ''https://example.com/logo.png'' ''resources''
       \<noteq> create_local_filename (\<lambda>host. None) ''https://cdn9079.example.com/logo.png'' ''resources''"
proof -
  have h: "url_hash ''https://example.com/logo.png'' \<noteq> url_hash ''https://cdn9079.example.com/logo.png''"
    by (simp add: url_hash_logo url_hash_cdn9079)
  show ?thesis
    using distinct_hash_distinct_path [OF stem_of_logo stem_of_cdn9079 h, of "''resources''"]
      stem_of_logo stem_of_cdn9079 h
    by simp
qed

subsection \<open>Downloads\<close>

lemma relpath_logo:
  "os_path_relpath ''/w'' ''resources/logo_78761c80.png'' (os_path_dirname ''out.html'')
     = Inr ''resources/logo_78761c80.png''"
  by code_simp

lemma abspath_logo:
  "os_path_abspath ''/w'' ''resources/logo_78761c80.png'' = ''/w/resources/logo_78761c80.png''"
  by code_simp

lemma replace_backslash_logo:
  "replace ''resources/logo_78761c80.png'' [CHR 0x5C] ''/'' = ''resources/logo_78761c80.png''"
  by code_simp

lemma relpath_css:
  "os_path_relpath ''/w'' ''resources/s_e4dbbd1b.css'' (os_path_dirname ''out.html'')
     = Inr ''resources/s_e4dbbd1b.css''"
  by code_simp

lemma abspath_css:
  "os_path_abspath ''/w'' ''resources/s_e4dbbd1b.css'' = ''/w/resources/s_e4dbbd1b.css''"
  by code_simp

lemma replace_backslash_css:
  "replace ''resources/s_e4dbbd1b.css'' [CHR 0x5C] ''/'' = ''resources/s_e4dbbd1b.css''"
  by code_simp

lemma localize_logo:
  assumes "http_get env ''https://example.com/logo.png'' = Inr body"
    and "getcwd env = ''/w''" and "bracketed_host_check env = (\<lambda>host. None)"
  shows "localize env ''out.html'' ''https://example.com/logo.png'' st
           = (Inr (Some ''resources/logo_78761c80.png''),
              st\<lparr>files := (files st)(''/w/resources/logo_78761c80.png'' \<mapsto> body),
                 console := console st @ [''  Downloading: https://example.com/logo.png'',
                                          ''    Saved to: resources/logo_78761c80.png''],
                 requests := requests st @ [''https://example.com/logo.png''],
                 downloaded_resources :=
                   dict_set ''https://example.com/logo.png'' ''resources/logo_78761c80.png''
                     (downloaded_resources st)\<rparr>)"
  using assms
  by (simp add: localize_def create_local_filename_logo download_resource_def startswith_def
      startswith_any_def print_def write_file_def abspath_logo relpath_logo replace_backslash_logo
      Let_def)

lemma localize_css:
  assumes "http_get env ''https://example.com/s.css'' = Inr body"
    and "getcwd env = ''/w''" and "bracketed_host_check env = (\<lambda>host. None)"
  shows "localize env ''out.html'' ''https://example.com/s.css'' st
           = (Inr (Some ''resources/s_e4dbbd1b.css''),
              st\<lparr>files := (files st)(''/w/resources/s_e4dbbd1b.css'' \<mapsto> body),
                 console := console st @ [''  Downloading: https://example.com/s.css'',
                                          ''    Saved to: resources/s_e4dbbd1b.css''],
                 requests := requests st @ [''https://example.com/s.css''],
                 downloaded_resources :=
                   dict_set ''https://example.com/s.css'' ''resources/s_e4dbbd1b.css''
                     (downloaded_resources st)\<rparr>)"
  using assms
  by (simp add: localize_def create_local_filename_css download_resource_def startswith_def
      startswith_any_def print_def write_file_def abspath_css relpath_css replace_backslash_css
      Let_def)

lemma localize_fetch_failed:
  assumes "stem_of (bracketed_host_check env) url = Some filename"
    and "startswith_any url [''http://'', ''https://'']"
    and "http_get env url = Inl e"
  shows "localize env out url st
           = (Inr None,
              st\<lparr>console := console st @ [''  Downloading: '' @ url,
                                          ''    Failed to download '' @ url @ '': '' @ exn_str e],
                 requests := requests st @ [url]\<rparr>)"
proof -
  have "\<not> startswith url ''//''"
    using assms(2) by (auto simp: startswith_any_def startswith_Cons)
  then show ?thesis
    using assms(2,3)
    by (simp add: localize_def create_local_filename_stem [OF assms(1)] download_resource_def
        print_def Let_def)
qed

lemma localize_404:
  assumes "stem_of (\<lambda>host. None) url = Some filename"
    and "startswith_any url [''http://'', ''https://'']"
  shows "localize env_404 out url st
           = (Inr None,
              st\<lparr>console := console st @ [''  Downloading: '' @ url,
                        ''    Failed to download '' @ url @ '': 404 Client Error: Not Found''],
                 requests := requests st @ [url]\<rparr>)"
  using localize_fetch_failed [of env_404 url filename "HTTPError ''404 Client Error: Not Found''" out st]
    assms
  by (simp add: env_404_def)

lemma localize_script_failed:
  "localize env_404 ''out.html'' ''https://example.com/a.js'' st_empty = (Inr None, st_failed)"
  using localize_404 [OF stem_of_script, of "''out.html''" st_empty]
  by (simp add: startswith_any_def startswith_def st_empty_def st_failed_def)

lemma localize_logo_ok:
  "localize env_ok ''out.html'' ''https://example.com/logo.png'' st_empty
     = (Inr (Some ''resources/logo_78761c80.png''), st_logo)"
  using localize_logo [of env_ok "''body''" st_empty]
  by (simp add: env_ok_def st_empty_def st_logo_def)

subsection \<open>A failed download, step by step\<close>

text \<open>
  The transport answers 404 for \<^verbatim>\<open>https://example.com/a.js\<close>. In each of the four contexts
  the step requests that URL once, leaves the context and the dictionary as they were, and
  the walk and the loop go on.
\<close>

lemma failed_fetch_is_skipped_example:
  "new_requests st_empty st_failed = [''https://example.com/a.js'']
   \<and> http_get env_404 ''https://example.com/a.js'' = Inl (HTTPError ''404 Client Error: Not Found'')
   \<and> localize_element env_404 ''https://example.com'' ''out.html'' ''src''
         [(''src'', ''https://example.com/a.js'')] st_empty
       = (Inr [(''src'', ''https://example.com/a.js'')], st_failed)
   \<and> external_css_url env_404 ''https://example.com'' ''out.html'' ''https://example.com/a.js''
         ''a{background:url(https://example.com/a.js)}'' st_empty
       = (Inr ''a{background:url(https://example.com/a.js)}'', st_failed)
   \<and> inline_css_url env_404 ''https://example.com'' ''out.html'' ''https://example.com/a.js''
         ''a{background:url(https://example.com/a.js)}'' st_empty
       = (Inr ''a{background:url(https://example.com/a.js)}'', st_failed)
   \<and> style_attr_url env_404 ''https://example.com'' ''out.html'' ''https://example.com/a.js''
         ''a{background:url(https://example.com/a.js)}'' st_empty
       = (Inr ''a{background:url(https://example.com/a.js)}'', st_failed)
   \<and> downloaded_resources st_failed = downloaded_resources st_empty
   \<and> walk (select_visitor env_404 ''https://example.com'' ''out.html'' (Sel ''script'' None) ''src'')
         (Tag ''script'' [(''src'', ''https://example.com/a.js'')] [NavigableString ''x'']) st_empty
       = (Inr (Tag ''script'' [(''src'', ''https://example.com/a.js'')] [NavigableString ''x'']),
          st_failed)
   \<and> for_each (inline_css_url env_404 ''https://example.com'' ''out.html'')
         [''https://example.com/a.js'', ''#b''] ''a{background:url(https://example.com/a.js)}'' st_empty
       = for_each (inline_css_url env_404 ''https://example.com'' ''out.html'')
           [''#b''] ''a{background:url(https://example.com/a.js)}'' st_failed"
proof -
  have n: "new_requests st_empty st_failed = [''https://example.com/a.js'']"
    by (simp add: new_requests_def st_empty_def st_failed_def)
  have g: "http_get env_404 u = Inl (HTTPError ''404 Client Error: Not Found'')" for u
    by (simp add: env_404_def)
  have d: "downloaded_resources st_empty = []"
    by (simp add: st_empty_def)
  have a: "localize_element env_404 ''https://example.com'' ''out.html'' ''src''
             [(''src'', ''https://example.com/a.js'')] st_empty
           = (Inr [(''src'', ''https://example.com/a.js'')], st_failed)"
    by (simp add: localize_element_def resolve_attr_url_def startswith_any_def startswith_def d
        localize_script_failed)
  have e: "external_css_url env_404 ''https://example.com'' ''out.html'' ''https://example.com/a.js''
             ''a{background:url(https://example.com/a.js)}'' st_empty
           = (Inr ''a{background:url(https://example.com/a.js)}'', st_failed)"
    by (simp add: external_css_url_def resolve_css_url_def startswith_any_def startswith_def d
        has_key_def localize_script_failed)
  have i: "inline_css_url env_404 ''https://example.com'' ''out.html'' ''https://example.com/a.js''
             ''a{background:url(https://example.com/a.js)}'' st_empty
           = (Inr ''a{background:url(https://example.com/a.js)}'', st_failed)"
    by (simp add: inline_css_url_def resolve_css_url_def startswith_any_def startswith_def d
        has_key_def localize_script_failed)
  have s: "style_attr_url env_404 ''https://example.com'' ''out.html'' ''https://example.com/a.js''
             ''a{background:url(https://example.com/a.js)}'' st_empty
           = (Inr ''a{background:url(https://example.com/a.js)}'', st_failed)"
    by (simp add: style_attr_url_def resolve_css_url_def startswith_any_def startswith_def d
        has_key_def localize_script_failed)
  have sel: "selects (Sel ''script'' None) ''script'' [(''src'', ''https://example.com/a.js'')]"
    by simp
  have w: "walk_list (select_visitor env_404 ''https://example.com'' ''out.html'' (Sel ''script'' None) ''src'')
             [NavigableString ''x''] st_failed = (Inr [NavigableString ''x''], st_failed)"
    by simp
  show ?thesis
    using failed_fetch_is_skipped [of st_empty st_failed env_404 "''https://example.com''"
        "''out.html''" "''src''" "[(''src'', ''https://example.com/a.js'')]"
        "Inr [(''src'', ''https://example.com/a.js'')]" "Sel ''script'' None" "''script''"
        "[NavigableString ''x'']" "''https://example.com/a.js''"
        "''a{background:url(https://example.com/a.js)}''"
        "Inr ''a{background:url(https://example.com/a.js)}''" "[''#b'']"
        "Inr ''a{background:url(https://example.com/a.js)}''"
        "Inr ''a{background:url(https://example.com/a.js)}''"]
    by (simp only: n g a e i s sel w) simp
qed

subsection \<open>Protocol-relative references: claim C4\<close>

lemma replace_inline_logo:
  "replace ''a{background:url(//example.com/logo.png)}'' ''//example.com/logo.png''
     ''resources/logo_78761c80.png'' = ''a{background:url(resources/logo_78761c80.png)}''"
  by code_simp

lemma replace_external_logo:
  "replace ''a{background:url(//example.com/logo.png)}'' ''https://example.com/logo.png''
     ''resources/logo_78761c80.png'' = ''a{background:url(//example.com/logo.png)}''"
  by code_simp

text \<open>
  The reference \<^verbatim>\<open>//example.com/logo.png\<close> in the three CSS contexts, with an empty
  dictionary and a transport that answers: each step requests
  \<^verbatim>\<open>https://example.com/logo.png\<close>, writes the body to the path synthesized for that URL and
  records that URL in the dictionary. The fetcher, given the reference itself, requests the
  same URL; and the reference \<^verbatim>\<open>//cdn.example.com/a.js\<close> resolves to
  \<^verbatim>\<open>https://cdn.example.com/a.js\<close> in the CSS contexts.
\<close>

lemma protocol_relative_css_reference_example:
  "startswith ''//example.com/logo.png'' ''//''
   \<and> resolve_css_url env_ok ''https://example.com'' ''//example.com/logo.png''
       = Inr ''https://example.com/logo.png''
   \<and> resolve_css_url env_ok ''http://example.com'' ''//cdn.example.com/a.js''
       = Inr ''https://cdn.example.com/a.js''
   \<and> external_css_url env_ok ''https://example.com'' ''out.html'' ''//example.com/logo.png''
         ''a{background:url(//example.com/logo.png)}'' st_empty
       = (Inr ''a{background:url(//example.com/logo.png)}'', st_logo)
   \<and> inline_css_url env_ok ''https://example.com'' ''out.html'' ''//example.com/logo.png''
         ''a{background:url(//example.com/logo.png)}'' st_empty
       = (Inr ''a{background:url(resources/logo_78761c80.png)}'', st_logo)
   \<and> style_attr_url env_ok ''https://example.com'' ''out.html'' ''//example.com/logo.png''
         ''a{background:url(//example.com/logo.png)}'' st_empty
       = (Inr ''a{background:url(resources/logo_78761c80.png)}'', st_logo)
   \<and> \<not> has_key (downloaded_resources st_empty) ''https://example.com/logo.png''
   \<and> create_local_filename (bracketed_host_check env_ok) ''https://example.com/logo.png'' ''resources''
       = Inr ''resources/logo_78761c80.png''
   \<and> http_get env_ok ''https://example.com/logo.png'' = Inr ''body''
   \<and> handled_as env_ok ''https://example.com/logo.png'' ''resources/logo_78761c80.png'' ''body''
       st_empty st_logo
   \<and> new_requests st_empty st_logo = [''https://example.com/logo.png'']
   \<and> files st_logo ''/w/resources/logo_78761c80.png'' = Some ''body''
   \<and> has_key (downloaded_resources st_logo) ''https://example.com/logo.png''
   \<and> new_requests st_empty
         (snd (download_resource env_ok ''//example.com/logo.png'' ''resources/logo_78761c80.png''
                 st_empty))
       = [''https://example.com/logo.png'']"
proof -
  have p: "startswith ''//example.com/logo.png'' ''//''"
    by (simp add: startswith_def)
  have q: "startswith ''//cdn.example.com/a.js'' ''//''"
    by (simp add: startswith_def)
  have d: "downloaded_resources st_empty = []"
    by (simp add: st_empty_def)
  have c: "bracketed_host_check env_ok = (\<lambda>host. None)"
    "http_get env_ok ''https://example.com/logo.png'' = Inr ''body''" "getcwd env_ok = ''/w''"
    by (simp_all add: env_ok_def)
  have r: "resolve_css_url env_ok ''https://example.com'' ''//example.com/logo.png''
             = Inr ''https://example.com/logo.png''"
    by (simp add: resolve_css_url_def startswith_def)
  have e: "external_css_url env_ok ''https://example.com'' ''out.html'' ''//example.com/logo.png''
             ''a{background:url(//example.com/logo.png)}'' st_empty
           = (Inr ''a{background:url(//example.com/logo.png)}'', st_logo)"
    by (simp add: external_css_url_def r startswith_any_def startswith_def d has_key_def
        localize_logo_ok replace_external_logo)
  have i: "inline_css_url env_ok ''https://example.com'' ''out.html'' ''//example.com/logo.png''
             ''a{background:url(//example.com/logo.png)}'' st_empty
           = (Inr ''a{background:url(resources/logo_78761c80.png)}'', st_logo)"
    by (simp add: inline_css_url_def r startswith_any_def startswith_def d has_key_def
        localize_logo_ok replace_inline_logo)
  have s: "style_attr_url env_ok ''https://example.com'' ''out.html'' ''//example.com/logo.png''
             ''a{background:url(//example.com/logo.png)}'' st_empty
           = (Inr ''a{background:url(resources/logo_78761c80.png)}'', st_logo)"
    by (simp add: style_attr_url_def r startswith_any_def startswith_def d
        localize_logo_ok replace_inline_logo)
  have k: "\<not> has_key (downloaded_resources st_empty) ''https://example.com/logo.png''"
    by (simp add: d has_key_def)
  have h: "handled_as env_ok ''https://example.com/logo.png'' ''resources/logo_78761c80.png'' ''body''
             st_empty st_logo"
    using protocol_relative_css_reference [OF p, of env_ok "''https://example.com''" "''out.html''"
        "''a{background:url(//example.com/logo.png)}''" st_empty
        "Inr ''a{background:url(resources/logo_78761c80.png)}''" st_logo
        "''resources/logo_78761c80.png''" "''body''"
        "Inr ''a{background:url(resources/logo_78761c80.png)}''"
        "Inr ''a{background:url(resources/logo_78761c80.png)}''" True]
      i
    by simp
  have f: "new_requests st_empty
             (snd (download_resource env_ok ''//example.com/logo.png'' ''resources/logo_78761c80.png''
                     st_empty))
           = [''https://example.com/logo.png'']"
    using protocol_relative_css_reference [OF p, of env_ok "''https://example.com''" "''out.html''"
        "''a{background:url(//example.com/logo.png)}''" st_empty
        "Inl (ValueError [])"
        "snd (download_resource env_ok ''//example.com/logo.png'' ''resources/logo_78761c80.png''
                st_empty)"
        "''resources/logo_78761c80.png''" "''body''" "Inl (ValueError [])" "Inl (ValueError [])"
        "fst (download_resource env_ok ''//example.com/logo.png'' ''resources/logo_78761c80.png''
                st_empty)"]
    by simp
  have t: "resolve_css_url env_ok ''http://example.com'' ''//cdn.example.com/a.js''
             = Inr ''https://cdn.example.com/a.js''"
    using protocol_relative_css_reference [OF q, of env_ok "''http://example.com''"]
    by simp
  show ?thesis
    using h k p r t e i s f c create_local_filename_logo abspath_logo
    by (simp add: handled_as_def)
qed

lemma urljoin_protocol_relative:
  "urljoin (\<lambda>host. None) ''http://example.com'' ''//cdn.example.com/a.js''
     = Inr ''http://cdn.example.com/a.js''"
  by code_simp

subsection \<open>The passes on the example pages\<close>

lemmas eval_defs =
  rewrite_passes_def attribute_pass_def resource_selectors_def select_visitor_def
  localize_element_def resolve_attr_url_def external_css_pass_def external_css_file_def
  external_css_url_def style_tag_visitor_def inline_css_url_def style_attr_visitor_def
  style_attr_url_def resolve_css_url_def startswith_def startswith_any_def
  has_key_def print_def read_file_def write_file_def

text \<open>
  Claim C4, at a page with the script reference \<^verbatim>\<open>//cdn.example.com/a.js\<close> and the base URL
  \<^verbatim>\<open>http://example.com\<close>. The attribute pass tests for a leading \<^verbatim>\<open>/\<close> first (line 233),
  which a reference that starts with \<^verbatim>\<open>//\<close> has, and joins the reference with the base URL,
  although lines 236 and 241 let a reference with \<^verbatim>\<open>//\<close> through and the fetcher would put
  \<^verbatim>\<open>https:\<close> in front of it (lines 148 and 149). The reference resolves to
  \<^verbatim>\<open>http://cdn.example.com/a.js\<close>, with the scheme of the base URL and not \<^verbatim>\<open>https:\<close>, and
  that is the URL requested.
\<close>

theorem protocol_relative_attribute_takes_base_scheme:
  "resolve_attr_url env_404 ''http://example.com'' ''//cdn.example.com/a.js''
     = Inr ''http://cdn.example.com/a.js''
   \<and> requests (snd (rewrite_passes env_404 ''http://example.com'' ''out.html'' doc_script st_empty))
       = [''http://cdn.example.com/a.js'']"
proof -
  have l: "localize env_404 ''out.html'' ''http://cdn.example.com/a.js'' st
             = (Inr None,
                st\<lparr>console := console st @ [''  Downloading: '' @ ''http://cdn.example.com/a.js'',
                        ''    Failed to download '' @ ''http://cdn.example.com/a.js''
                          @ '': 404 Client Error: Not Found''],
                   requests := requests st @ [''http://cdn.example.com/a.js'']\<rparr>)" for st
    by (rule localize_404 [OF stem_of_cdn_script]) (simp add: startswith_any_def startswith_def)
  have e: "bracketed_host_check env_404 = (\<lambda>host. None)"
    by (simp add: env_404_def)
  show ?thesis
    by (simp add: eval_defs doc_script_def st_empty_def l e urljoin_protocol_relative)
qed

lemma find_css_urls_cached:
  "find_css_urls ''a{background:url(https://example.com/logo.png)}'' = [''https://example.com/logo.png'']"
  by code_simp

lemma endswith_png: "\<not> endswith ''resources/logo_78761c80.png'' ''.css''"
  by code_simp

text \<open>
  Claim C1, at a page whose image is also the background of an inline style element. The
  attribute pass downloads \<^verbatim>\<open>https://example.com/logo.png\<close> and records it. The inline style
  element pass then finds the URL in the dictionary and does nothing (line 322 has no
  branch for a URL that is in the dictionary): nothing is requested a second time, and the
  text of the style element keeps the URL instead of the recorded relative path.
\<close>

theorem cached_url_in_style_element_not_substituted:
  "fst (rewrite_passes env_ok ''https://example.com'' ''out.html'' doc_cached st_empty)
     = Inr [Tag ''img'' [(''src'', ''resources/logo_78761c80.png'')] [],
            Tag ''style'' [] [NavigableString ''a{background:url(https://example.com/logo.png)}'']]
   \<and> requests (snd (rewrite_passes env_ok ''https://example.com'' ''out.html'' doc_cached st_empty))
       = [''https://example.com/logo.png'']"
proof -
  have l: "localize env_ok ''out.html'' ''https://example.com/logo.png'' st
             = (Inr (Some ''resources/logo_78761c80.png''),
                st\<lparr>files := (files st)(''/w/resources/logo_78761c80.png'' \<mapsto> ''body''),
                   console := console st @ [''  Downloading: https://example.com/logo.png'',
                                            ''    Saved to: resources/logo_78761c80.png''],
                   requests := requests st @ [''https://example.com/logo.png''],
                   downloaded_resources :=
                     dict_set ''https://example.com/logo.png'' ''resources/logo_78761c80.png''
                       (downloaded_resources st)\<rparr>)" for st
    by (rule localize_logo) (simp_all add: env_ok_def)
  show ?thesis
    by (simp add: eval_defs doc_cached_def st_empty_def l find_css_urls_cached endswith_png)
qed

lemma urljoin_fragment:
  "urljoin (\<lambda>host. None) ''https://example.com'' ''#blur'' = Inr ''https://example.com#blur''"
  by code_simp

lemma find_css_urls_fragment: "find_css_urls ''b{filter:url(#blur)}'' = [''#blur'']"
  by code_simp

text \<open>
  Claim C2, at a page whose inline style element has \<^verbatim>\<open>filter:url(#blur)\<close>. The three CSS
  passes have no test for the prefixes that the attribute pass skips (line 229): the
  reference \<^verbatim>\<open>#blur\<close> is joined with the base URL, and \<^verbatim>\<open>https://example.com#blur\<close> is
  requested.
\<close>

theorem fragment_in_style_element_is_requested:
  "requests (snd (rewrite_passes env_404 ''https://example.com'' ''out.html'' doc_fragment st_empty))
     = [''https://example.com#blur'']"
proof -
  have l: "localize env_404 ''out.html'' ''https://example.com#blur'' st
             = (Inr None,
                st\<lparr>console := console st @ [''  Downloading: '' @ ''https://example.com#blur'',
                        ''    Failed to download '' @ ''https://example.com#blur''
                          @ '': 404 Client Error: Not Found''],
                   requests := requests st @ [''https://example.com#blur'']\<rparr>)" for st
    by (rule localize_404 [OF stem_of_fragment]) (simp add: startswith_any_def startswith_def)
  have e: "bracketed_host_check env_404 = (\<lambda>host. None)"
    by (simp add: env_404_def)
  show ?thesis
    by (simp add: eval_defs doc_fragment_def st_empty_def l e find_css_urls_fragment urljoin_fragment)
qed

lemma urljoin_logo:
  "urljoin (\<lambda>host. None) ''https://example.com'' ''/logo.png'' = Inr ''https://example.com/logo.png''"
  by code_simp

lemma find_css_urls_stylesheet:
  "find_css_urls ''body{background:url(/logo.png)}'' = [''/logo.png'']"
  by code_simp

lemma replace_stylesheet:
  "replace ''body{background:url(/logo.png)}'' ''https://example.com/logo.png''
     ''resources/logo_78761c80.png'' = ''body{background:url(/logo.png)}''"
  by code_simp

lemma endswith_css: "endswith ''resources/s_e4dbbd1b.css'' ''.css''"
  by code_simp

lemma rel_stylesheet:
  "\<not> attr_value_matches ''rel'' ''stylesheet'' ''icon''"
  "\<not> attr_value_matches ''rel'' ''stylesheet'' ''shortcut icon''"
  by code_simp+

lemma stylesheet_run:
  "snd (rewrite_passes env_css ''https://example.com'' ''out.html'' doc_stylesheet st_empty)
     = \<lparr>files = [''/w/resources/logo_78761c80.png'' \<mapsto> ''body'',
                 ''/w/resources/s_e4dbbd1b.css'' \<mapsto> ''body{background:url(/logo.png)}''],
        console = [''  Downloading external resources...'',
                   ''  Downloading: https://example.com/s.css'',
                   ''    Saved to: resources/s_e4dbbd1b.css'',
                   ''  Processing CSS files for embedded resources...'',
                   ''  Downloading: https://example.com/logo.png'',
                   ''    Saved to: resources/logo_78761c80.png'',
                   ''  Processing inline CSS for embedded resources...'',
                   ''  Processing inline style attributes for background images...''],
        requests = [''https://example.com/s.css'', ''https://example.com/logo.png''],
        downloaded_resources =
          [(''https://example.com/s.css'', ''resources/s_e4dbbd1b.css''),
           (''https://example.com/logo.png'', ''resources/logo_78761c80.png'')]\<rparr>"
proof -
  have c: "localize env_css ''out.html'' ''https://example.com/s.css'' st
             = (Inr (Some ''resources/s_e4dbbd1b.css''),
                st\<lparr>files := (files st)(''/w/resources/s_e4dbbd1b.css''
                                          \<mapsto> ''body{background:url(/logo.png)}''),
                   console := console st @ [''  Downloading: https://example.com/s.css'',
                                            ''    Saved to: resources/s_e4dbbd1b.css''],
                   requests := requests st @ [''https://example.com/s.css''],
                   downloaded_resources :=
                     dict_set ''https://example.com/s.css'' ''resources/s_e4dbbd1b.css''
                       (downloaded_resources st)\<rparr>)" for st
    by (rule localize_css) (simp_all add: env_css_def env_ok_def)
  have l: "localize env_css ''out.html'' ''https://example.com/logo.png'' st
             = (Inr (Some ''resources/logo_78761c80.png''),
                st\<lparr>files := (files st)(''/w/resources/logo_78761c80.png'' \<mapsto> ''body''),
                   console := console st @ [''  Downloading: https://example.com/logo.png'',
                                            ''    Saved to: resources/logo_78761c80.png''],
                   requests := requests st @ [''https://example.com/logo.png''],
                   downloaded_resources :=
                     dict_set ''https://example.com/logo.png'' ''resources/logo_78761c80.png''
                       (downloaded_resources st)\<rparr>)" for st
    by (rule localize_logo) (simp_all add: env_css_def env_ok_def)
  have e: "getcwd env_css = ''/w''" "bracketed_host_check env_css = (\<lambda>host. None)"
    by (simp_all add: env_css_def env_ok_def)
  show ?thesis
    by (simp add: eval_defs doc_stylesheet_def st_empty_def c l e find_css_urls_stylesheet
        urljoin_logo replace_stylesheet rel_stylesheet abspath_css endswith_css)
qed

text \<open>
  Claim C3, at a page with the stylesheet \<^verbatim>\<open>https://example.com/s.css\<close> whose text is
  \<^verbatim>\<open>body{background:url(/logo.png)}\<close>, run in the directory of the output file. The external
  stylesheet pass resolves \<^verbatim>\<open>/logo.png\<close> to \<^verbatim>\<open>https://example.com/logo.png\<close>, downloads it
  and records it, and then replaces the resolved URL in the text (line 290), which does not
  occur there: the stylesheet file is written back with the reference \<^verbatim>\<open>/logo.png\<close>
  unchanged.
\<close>

theorem relative_reference_in_stylesheet_not_substituted:
  "files (snd (rewrite_passes env_css ''https://example.com'' ''out.html'' doc_stylesheet st_empty))
       ''/w/resources/s_e4dbbd1b.css''
     = Some ''body{background:url(/logo.png)}''
   \<and> requests (snd (rewrite_passes env_css ''https://example.com'' ''out.html'' doc_stylesheet st_empty))
       = [''https://example.com/s.css'', ''https://example.com/logo.png'']
   \<and> downloaded_resources
         (snd (rewrite_passes env_css ''https://example.com'' ''out.html'' doc_stylesheet st_empty))
       = [(''https://example.com/s.css'', ''resources/s_e4dbbd1b.css''),
          (''https://example.com/logo.png'', ''resources/logo_78761c80.png'')]"
  by (simp add: stylesheet_run)

subsection \<open>A failed reference and a later one: claim C5\<close>

lemma url_hash_woff: "url_hash ''https://example.com/x.woff'' = ''4387cd9b''"
  by code_simp

lemma stem_of_woff: "stem_of (\<lambda>host. None) ''https://example.com/x.woff'' = Some ''x.woff''"
  by code_simp

lemma stem_of_woff2: "stem_of (\<lambda>host. None) ''https://example.com/x.woff2'' = Some ''x.woff2''"
  by code_simp

lemma splitext_woff: "os_path_splitext ''x.woff'' = (''x'', ''.woff'')"
  by code_simp

lemma join_woff: "os_path_join ''resources'' ''x_4387cd9b.woff'' = ''resources/x_4387cd9b.woff''"
  by code_simp

lemma create_local_filename_woff:
  "create_local_filename (\<lambda>host. None) ''https://example.com/x.woff'' ''resources''
     = Inr ''resources/x_4387cd9b.woff''"
  by (simp add: create_local_filename_stem [OF stem_of_woff] splitext_woff url_hash_woff join_woff)

lemma relpath_woff:
  "os_path_relpath ''/w'' ''resources/x_4387cd9b.woff'' (os_path_dirname ''out.html'')
     = Inr ''resources/x_4387cd9b.woff''"
  by code_simp

lemma abspath_woff:
  "os_path_abspath ''/w'' ''resources/x_4387cd9b.woff'' = ''/w/resources/x_4387cd9b.woff''"
  by code_simp

lemma replace_backslash_woff:
  "replace ''resources/x_4387cd9b.woff'' [CHR 0x5C] ''/'' = ''resources/x_4387cd9b.woff''"
  by code_simp

lemma find_css_urls_fonts:
  "find_css_urls ''@font-face{src:url(https://example.com/x.woff2),url(https://example.com/x.woff)}''
     = [''https://example.com/x.woff2'', ''https://example.com/x.woff'']"
  by code_simp

lemma replace_fonts:
  "replace ''@font-face{src:url(https://example.com/x.woff2),url(https://example.com/x.woff)}''
     ''https://example.com/x.woff'' ''resources/x_4387cd9b.woff''
     = ''@font-face{src:url(resources/x_4387cd9b.woff2),url(resources/x_4387cd9b.woff)}''"
  by code_simp

lemma fonts_run:
  "rewrite_passes env_fonts ''https://example.com'' ''out.html'' doc_fonts st_empty
     = (Inr [Tag ''style'' []
               [NavigableString
                  ''@font-face{src:url(resources/x_4387cd9b.woff2),url(resources/x_4387cd9b.woff)}'']],
        \<lparr>files = [''/w/resources/x_4387cd9b.woff'' \<mapsto> ''body''],
         console = [''  Downloading external resources...'',
                    ''  Processing CSS files for embedded resources...'',
                    ''  Processing inline CSS for embedded resources...'',
                    ''  Downloading: https://example.com/x.woff2'',
                    ''    Failed to download https://example.com/x.woff2: 404 Client Error: Not Found'',
                    ''  Downloading: https://example.com/x.woff'',
                    ''    Saved to: resources/x_4387cd9b.woff'',
                    ''  Processing inline style attributes for background images...''],
         requests = [''https://example.com/x.woff2'', ''https://example.com/x.woff''],
         downloaded_resources = [(''https://example.com/x.woff'', ''resources/x_4387cd9b.woff'')]\<rparr>)"
proof -
  have e: "bracketed_host_check env_fonts = (\<lambda>host. None)" "getcwd env_fonts = ''/w''"
    "http_get env_fonts ''https://example.com/x.woff'' = Inr ''body''"
    "http_get env_fonts ''https://example.com/x.woff2''
       = Inl (HTTPError ''404 Client Error: Not Found'')"
    by (simp_all add: env_fonts_def env_ok_def)
  have f: "localize env_fonts ''out.html'' ''https://example.com/x.woff2'' st
             = (Inr None,
                st\<lparr>console := console st
                        @ [''  Downloading: '' @ ''https://example.com/x.woff2'',
                           ''    Failed to download '' @ ''https://example.com/x.woff2'' @ '': ''
                             @ exn_str (HTTPError ''404 Client Error: Not Found'')],
                   requests := requests st @ [''https://example.com/x.woff2'']\<rparr>)" for st
    by (rule localize_fetch_failed [where filename = "''x.woff2''"])
      (simp_all add: e stem_of_woff2 startswith_any_def startswith_def)
  have l: "localize env_fonts ''out.html'' ''https://example.com/x.woff'' st
             = (Inr (Some ''resources/x_4387cd9b.woff''),
                st\<lparr>files := (files st)(''/w/resources/x_4387cd9b.woff'' \<mapsto> ''body''),
                   console := console st @ [''  Downloading: https://example.com/x.woff'',
                                            ''    Saved to: resources/x_4387cd9b.woff''],
                   requests := requests st @ [''https://example.com/x.woff''],
                   downloaded_resources :=
                     dict_set ''https://example.com/x.woff'' ''resources/x_4387cd9b.woff''
                       (downloaded_resources st)\<rparr>)" for st
    by (simp add: localize_def create_local_filename_woff download_resource_def startswith_def
        startswith_any_def print_def write_file_def abspath_woff relpath_woff replace_backslash_woff
        Let_def e)
  show ?thesis
    by (simp add: eval_defs doc_fonts_def st_empty_def f l find_css_urls_fonts replace_fonts)
qed

text \<open>
  Claim C5, at a page whose inline style element reads
  \<^verbatim>\<open>@font-face{src:url(https://example.com/x.woff2),url(https://example.com/x.woff)}\<close>, with a
  transport that answers 404 for \<^verbatim>\<open>x.woff2\<close> and answers \<^verbatim>\<open>x.woff\<close>. The step for \<^verbatim>\<open>x.woff2\<close>
  leaves the text and the dictionary as they were. The step for \<^verbatim>\<open>x.woff\<close> then replaces
  every occurrence of its URL in the whole text (line 328), and the failed reference
  contains that URL: the failed reference ends as \<^verbatim>\<open>resources/x_4387cd9b.woff2\<close>, a file
  that does not exist, instead of being left unchanged.
\<close>

theorem failed_reference_rewritten_by_later_one:
  "fst (rewrite_passes env_fonts ''https://example.com'' ''out.html'' doc_fonts st_empty)
     = Inr [Tag ''style'' []
              [NavigableString
                 ''@font-face{src:url(resources/x_4387cd9b.woff2),url(resources/x_4387cd9b.woff)}'']]
   \<and> http_get env_fonts ''https://example.com/x.woff2''
       = Inl (HTTPError ''404 Client Error: Not Found'')
   \<and> requests (snd (rewrite_passes env_fonts ''https://example.com'' ''out.html'' doc_fonts st_empty))
       = [''https://example.com/x.woff2'', ''https://example.com/x.woff'']
   \<and> downloaded_resources
         (snd (rewrite_passes env_fonts ''https://example.com'' ''out.html'' doc_fonts st_empty))
       = [(''https://example.com/x.woff'', ''resources/x_4387cd9b.woff'')]
   \<and> files (snd (rewrite_passes env_fonts ''https://example.com'' ''out.html'' doc_fonts st_empty))
         ''/w/resources/x_4387cd9b.woff2'' = None"
proof -
  have "http_get env_fonts ''https://example.com/x.woff2''
          = Inl (HTTPError ''404 Client Error: Not Found'')"
    by (simp add: env_fonts_def)
  then show ?thesis
    by (simp add: fonts_run)
qed

subsection \<open>Link elements: claim C10\<close>


lemma rel_icon:
  "attr_value_matches ''rel'' ''icon'' ''icon''"
  "\<not> attr_value_matches ''rel'' ''icon'' ''shortcut icon''"
  by code_simp+



lemma urljoin_local_logo:
  "urljoin (\<lambda>host. None) ''https://example.com'' ''resources/logo_78761c80.png''
     = Inr ''https://example.com/resources/logo_78761c80.png''"
  by code_simp

lemma stem_of_local_logo:
  "stem_of (\<lambda>host. None) ''https://example.com/resources/logo_78761c80.png''
     = Some ''logo_78761c80.png''"
  by code_simp

text \<open>
  An icon link with the \<^verbatim>\<open>href\<close> \<^verbatim>\<open>/logo.png\<close>. The selector \<^verbatim>\<open>link\<close> downloads
  \<^verbatim>\<open>https://example.com/logo.png\<close> and rewrites the \<^verbatim>\<open>href\<close> to \<^verbatim>\<open>resources/logo_78761c80.png\<close>.
  The selector \<^verbatim>\<open>link[rel="icon"]\<close> (line 215) then selects the element again, joins the
  rewritten \<^verbatim>\<open>href\<close> with the base URL and requests
  \<^verbatim>\<open>https://example.com/resources/logo_78761c80.png\<close>. Here the transport answers 404 for
  it, and the \<^verbatim>\<open>href\<close> stays.
\<close>

lemma icon_link_is_requested_again:
  "fst (attribute_pass env_logo ''https://example.com'' ''out.html'' doc_icon st_empty)
     = Inr [Tag ''link'' [(''rel'', ''icon''), (''href'', ''resources/logo_78761c80.png'')] []]
   \<and> requests (snd (attribute_pass env_logo ''https://example.com'' ''out.html'' doc_icon st_empty))
       = [''https://example.com/logo.png'', ''https://example.com/resources/logo_78761c80.png'']"
proof -
  have e: "bracketed_host_check env_logo = (\<lambda>host. None)"
    by (simp add: env_logo_def env_404_def)
  have g: "http_get env_logo ''https://example.com/resources/logo_78761c80.png''
             = Inl (HTTPError ''404 Client Error: Not Found'')"
    by (simp add: env_logo_def)
  have l: "localize env_logo ''out.html'' ''https://example.com/logo.png'' st
             = (Inr (Some ''resources/logo_78761c80.png''),
                st\<lparr>files := (files st)(''/w/resources/logo_78761c80.png'' \<mapsto> ''body''),
                   console := console st @ [''  Downloading: https://example.com/logo.png'',
                                            ''    Saved to: resources/logo_78761c80.png''],
                   requests := requests st @ [''https://example.com/logo.png''],
                   downloaded_resources :=
                     dict_set ''https://example.com/logo.png'' ''resources/logo_78761c80.png''
                       (downloaded_resources st)\<rparr>)" for st
    by (rule localize_logo) (simp_all add: env_logo_def env_404_def)
  have f: "localize env_logo ''out.html'' ''https://example.com/resources/logo_78761c80.png'' st
             = (Inr None,
                st\<lparr>console := console st
                        @ [''  Downloading: '' @ ''https://example.com/resources/logo_78761c80.png'',
                           ''    Failed to download ''
                             @ ''https://example.com/resources/logo_78761c80.png'' @ '': ''
                             @ exn_str (HTTPError ''404 Client Error: Not Found'')],
                   requests := requests st @ [''https://example.com/resources/logo_78761c80.png'']\<rparr>)"
    for st
    by (rule localize_fetch_failed [where filename = "''logo_78761c80.png''"])
      (simp_all add: e g stem_of_local_logo startswith_any_def startswith_def)
  show ?thesis
    by (simp add: attribute_pass_def resource_selectors_def select_visitor_def
        localize_element_def resolve_attr_url_def startswith_def startswith_any_def
        doc_icon_def st_empty_def l f e rel_icon urljoin_logo urljoin_local_logo)
qed

end
